theory Spec2Isabelle
  imports Main
begin

section \<open>JavaScript strings and values\<close>

text \<open>
  A shallow embedding of \<^verbatim>\<open>src/scripts/update-list.js\<close> (class
  \<^verbatim>\<open>AwesomeStarlightUpdater\<close>). Strings are lists of 8-bit characters and are read as
  ASCII text: \<^verbatim>\<open>toLowerCase\<close> folds the letters A to Z, and white space is the ASCII white
  space (tab, line feed, vertical tab, form feed, carriage return, space). A property that
  may hold \<^verbatim>\<open>undefined\<close> or \<^verbatim>\<open>null\<close> is a \<open>string option\<close>, with \<open>None\<close> for both.
\<close>

definition lowerChar :: "char \<Rightarrow> char" where
  "lowerChar c =
     (case map_of (zip ''ABCDEFGHIJKLMNOPQRSTUVWXYZ'' ''abcdefghijklmnopqrstuvwxyz'') c of
        Some d \<Rightarrow> d
      | None \<Rightarrow> c)"

definition toLowerCase :: "string \<Rightarrow> string" where
  "toLowerCase s = map lowerChar s"

definition isSpace :: "char \<Rightarrow> bool" where
  "isSpace c = (let n = (of_char c :: nat) in (9 \<le> n \<and> n \<le> 13) \<or> n = 32)"

text \<open>\<^verbatim>\<open>s.trim()\<close>: white space removed at both ends.\<close>

definition trim :: "string \<Rightarrow> string" where
  "trim s = rev (dropWhile isSpace (rev (dropWhile isSpace s)))"

text \<open>\<^verbatim>\<open>s.startsWith(p)\<close>, \<^verbatim>\<open>s.endsWith(p)\<close> and \<^verbatim>\<open>s.includes(p)\<close>.\<close>

fun startsWith :: "string \<Rightarrow> string \<Rightarrow> bool" where
  "startsWith s [] = True"
| "startsWith [] (p # ps) = False"
| "startsWith (c # cs) (p # ps) = (c = p \<and> startsWith cs ps)"

definition endsWith :: "string \<Rightarrow> string \<Rightarrow> bool" where
  "endsWith s p = startsWith (rev s) (rev p)"

fun includesStr :: "string \<Rightarrow> string \<Rightarrow> bool" where
  "includesStr [] p = (p = [])"
| "includesStr (c # cs) p = (startsWith (c # cs) p \<or> includesStr cs p)"

text \<open>
  JavaScript truthiness of a string-or-undefined value, and \<^verbatim>\<open>a || b\<close> on such values:
  the empty string, \<^verbatim>\<open>undefined\<close> and \<^verbatim>\<open>null\<close> are falsy.
\<close>

definition truthy :: "string option \<Rightarrow> bool" where
  "truthy v = (case v of None \<Rightarrow> False | Some s \<Rightarrow> s \<noteq> [])"

definition orElse :: "string option \<Rightarrow> string option \<Rightarrow> string option" where
  "orElse a b = (if truthy a then a else b)"

text \<open>\<^verbatim>\<open>(v || "")\<close>: the string itself when truthy, the empty string otherwise.\<close>

definition orEmpty :: "string option \<Rightarrow> string" where
  "orEmpty v = (case v of None \<Rightarrow> [] | Some s \<Rightarrow> s)"

section \<open>Items\<close>

text \<open>
  The objects that flow through the matcher. Official entries and showcase sites carry
  \<^verbatim>\<open>title\<close>, \<^verbatim>\<open>url\<close>, \<^verbatim>\<open>description\<close>; \<^verbatim>\<open>filterSupplementaryPackages\<close> builds
  \<^verbatim>\<open>{ name, url }\<close>; \<^verbatim>\<open>isDuplicate\<close> and \<^verbatim>\<open>isLikelySameTheme\<close> also read
  \<^verbatim>\<open>homepage\<close> and \<^verbatim>\<open>repo\<close>. A property that is absent is \<open>None\<close>.
\<close>

record item =
  title :: "string option"
  url :: "string option"
  description :: "string option"
  homepage :: "string option"
  repo :: "string option"
  name :: "string option"

section \<open>Matcher: isDuplicate\<close>

text \<open>
  The regular expression \<^verbatim>\<open>/github\.com\/([^/]+)\/([^/#?]+)/\<close> of \<^verbatim>\<open>checkGitHubRepo\<close>,
  \<^verbatim>\<open>isDuplicate\<close> and \<^verbatim>\<open>extractRepoSlug\<close>. \<open>matchGitHubAt\<close> tries the pattern at the
  head of the string: the literal, a maximal non-empty run of characters other than a
  slash (backtracking into that run cannot help, since the next pattern character is a
  slash), a slash, and a maximal non-empty run of characters other than slash, hash and
  question mark. \<open>matchGitHub\<close> is the leftmost match, as \<^verbatim>\<open>String.prototype.match\<close>
  finds it; it returns the two groups (owner, repository).
\<close>

definition matchGitHubAt :: "string \<Rightarrow> (string \<times> string) option" where
  "matchGitHubAt s =
     (if startsWith s ''github.com/'' then
        (let r = drop 11 s;
             owner = takeWhile (\<lambda>c. c \<noteq> CHR ''/'') r;
             rest = dropWhile (\<lambda>c. c \<noteq> CHR ''/'') r
         in if owner = [] then None
            else (case rest of
                    [] \<Rightarrow> None
                  | _ # t \<Rightarrow>
                      (let rp = takeWhile (\<lambda>c. c \<noteq> CHR ''/'' \<and> c \<noteq> CHR ''#'' \<and> c \<noteq> CHR ''?'') t
                       in if rp = [] then None else Some (owner, rp))))
      else None)"

fun matchGitHub :: "string \<Rightarrow> (string \<times> string) option" where
  "matchGitHub [] = matchGitHubAt []"
| "matchGitHub (c # cs) =
     (case matchGitHubAt (c # cs) of
        Some m \<Rightarrow> Some m
      | None \<Rightarrow> matchGitHub cs)"

text \<open>
  \<^verbatim>\<open>const getRepo = (u) => u?.match(/github\.com\/[^/]+\/([^/#?]+)/)?.[1]\<close>:
  the repository group, \<open>None\<close> for \<^verbatim>\<open>undefined\<close>.
\<close>

definition getRepo :: "string option \<Rightarrow> string option" where
  "getRepo u =
     (case u of
        None \<Rightarrow> None
      | Some s \<Rightarrow> (case matchGitHub s of None \<Rightarrow> None | Some (ow, rp) \<Rightarrow> Some rp))"

text \<open>\<^verbatim>\<open>s.replace(/\/$/, "")\<close>: one slash removed at the very end of the string.\<close>

definition stripTrailingSlash :: "string \<Rightarrow> string" where
  "stripTrailingSlash s = (if endsWith s ''/'' then butlast s else s)"

text \<open>
  The URL normalisation that \<^verbatim>\<open>isDuplicate\<close> applies in place to both URLs
  (\<^verbatim>\<open>.toLowerCase().replace(/\/$/, "")\<close>, lines 392 to 397). The source has no function
  of this name; the expression is named after the specification's \<^verbatim>\<open>normalizeUrl\<close>.
\<close>

definition normalizeUrl :: "string \<Rightarrow> string" where
  "normalizeUrl s = stripTrailingSlash (toLowerCase s)"

text \<open>
  \<^verbatim>\<open>isDuplicate(newItem, officialItem)\<close>. The new item's URL is
  \<^verbatim>\<open>newItem.url || newItem.homepage\<close>; the official item's is \<^verbatim>\<open>officialItem.url\<close> only.
\<close>

definition isDuplicate :: "item \<Rightarrow> item \<Rightarrow> bool" where
  "isDuplicate newItem officialItem =
     (let newUrl = normalizeUrl (orEmpty (orElse (url newItem) (homepage newItem)));
          officialUrl = normalizeUrl (orEmpty (url officialItem))
      in if newUrl \<noteq> [] \<and> officialUrl \<noteq> [] \<and> newUrl = officialUrl then True
         else (let newRepo = getRepo (orElse (url newItem) (homepage newItem));
                   officialRepo = getRepo (url officialItem)
               in if truthy newRepo \<and> truthy officialRepo \<and> newRepo = officialRepo then True
                  else False))"

text \<open>
  \<^verbatim>\<open>isSameTitle(newItem, officialItem)\<close>, with
  \<^verbatim>\<open>normalize = (t) => (t || "").trim().toLowerCase()\<close>. The source returns the
  (truthy or falsy) value of \<^verbatim>\<open>normalize(a) && normalize(a) === normalize(b)\<close>; the model
  returns its truthiness.
\<close>

definition normalizeTitle :: "string option \<Rightarrow> string" where
  "normalizeTitle t = toLowerCase (trim (orEmpty t))"

definition isSameTitle :: "item \<Rightarrow> item \<Rightarrow> bool" where
  "isSameTitle newItem officialItem =
     (normalizeTitle (title newItem) \<noteq> [] \<and>
      normalizeTitle (title newItem) = normalizeTitle (title officialItem))"

section \<open>Normalizer: theme keys\<close>

text \<open>
  \<^verbatim>\<open>s.replace(/re/g, "")\<close> for a pattern given by the length of its match at the head of a
  string (\<open>None\<close> when it does not match there): matches are found from left to right, do
  not overlap, and the text is scanned once.
\<close>

fun removeMatches :: "(string \<Rightarrow> nat option) \<Rightarrow> string \<Rightarrow> string" where
  "removeMatches m [] = []"
| "removeMatches m (c # cs) =
     (case m (c # cs) of
        None \<Rightarrow> c # removeMatches m cs
      | Some n \<Rightarrow> (if n = 0 then c # removeMatches m cs else removeMatches m (drop (n - 1) cs)))"

text \<open>A literal pattern such as \<^verbatim>\<open>/starlight/\<close>.\<close>

definition literalAt :: "string \<Rightarrow> string \<Rightarrow> nat option" where
  "literalAt p s = (if startsWith s p then Some (length p) else None)"

text \<open>\<^verbatim>\<open>/https?:\/\/(www\.)?/\<close>: both optional parts are greedy.\<close>

definition protocolAt :: "string \<Rightarrow> nat option" where
  "protocolAt s =
     (if startsWith s ''https://'' then
        Some (if startsWith (drop 8 s) ''www.'' then 12 else 8)
      else if startsWith s ''http://'' then
        Some (if startsWith (drop 7 s) ''www.'' then 11 else 7)
      else None)"

text \<open>\<^verbatim>\<open>/docs?/\<close>.\<close>

definition docsAt :: "string \<Rightarrow> nat option" where
  "docsAt s =
     (if startsWith s ''docs'' then Some 4
      else if startsWith s ''doc'' then Some 3
      else None)"

text \<open>The character classes \<^verbatim>\<open>[\s._-]\<close> and \<^verbatim>\<open>[a-z0-9]\<close>.\<close>

definition isSeparator :: "char \<Rightarrow> bool" where
  "isSeparator c = (isSpace c \<or> c = CHR ''.'' \<or> c = CHR ''_'' \<or> c = CHR ''-'')"

definition isLowerAlnum :: "char \<Rightarrow> bool" where
  "isLowerAlnum c =
     (let n = (of_char c :: nat) in (97 \<le> n \<and> n \<le> 122) \<or> (48 \<le> n \<and> n \<le> 57))"

text \<open>
  \<^verbatim>\<open>normalizeThemeKey(input)\<close>: the chain of replacements of lines 415 to 424, in the
  source's order. Removing every run \<^verbatim>\<open>[\s._-]+\<close> removes every character of that class,
  and removing every \<^verbatim>\<open>[^a-z0-9]\<close> keeps the characters of \<^verbatim>\<open>[a-z0-9]\<close>.
\<close>

definition normalizeThemeKey :: "string option \<Rightarrow> string" where
  "normalizeThemeKey input =
     trim
       (filter isLowerAlnum
          (filter (\<lambda>c. \<not> isSeparator c)
             (removeMatches docsAt
                (removeMatches (literalAt ''astro'')
                   (removeMatches (literalAt ''theme'')
                      (removeMatches (literalAt ''starlight'')
                         (removeMatches protocolAt
                            (toLowerCase (orEmpty input)))))))))"

text \<open>\<^verbatim>\<open>extractRepoSlug(url)\<close>: the repository group, or the empty string.\<close>

definition extractRepoSlug :: "string option \<Rightarrow> string" where
  "extractRepoSlug u = orEmpty (getRepo u)"

text \<open>
  \<^verbatim>\<open>isLikelySameTheme(a, b)\<close>, with
  \<^verbatim>\<open>keysEqual = (x, y) => x && y && (x === y || x.includes(y) || y.includes(x))\<close>.
  Both return a truthy or falsy value in the source; the model returns its truthiness.
\<close>

definition keysEqual :: "string \<Rightarrow> string \<Rightarrow> bool" where
  "keysEqual x y = (x \<noteq> [] \<and> y \<noteq> [] \<and> (x = y \<or> includesStr x y \<or> includesStr y x))"

definition isLikelySameTheme :: "item \<Rightarrow> item \<Rightarrow> bool" where
  "isLikelySameTheme a b =
     (let keyA = normalizeThemeKey (title a);
          keyB = normalizeThemeKey (title b);
          repoKeyA = normalizeThemeKey
                       (Some (extractRepoSlug (orElse (orElse (url a) (homepage a)) (repo a))));
          repoKeyB = normalizeThemeKey
                       (Some (extractRepoSlug (orElse (orElse (url b) (homepage b)) (repo b))))
      in keysEqual keyA keyB \<or>
         keysEqual keyA repoKeyB \<or>
         keysEqual keyB repoKeyA \<or>
         (repoKeyA \<noteq> [] \<and> repoKeyB \<noteq> [] \<and> keysEqual repoKeyA repoKeyB))"

section \<open>Validator\<close>

text \<open>
  The network is the world's answer to a request. The answer may depend on the requests
  made before it (the log \<open>calls\<close>), so nothing is assumed about two requests for the
  same address getting the same answer.
  \<^item> \<open>githubApi log owner repo\<close>: the GET of
    \<^verbatim>\<open>https://api.github.com/repos/owner/repo\<close> in \<^verbatim>\<open>checkGitHubRepo\<close>. \<open>ApiError\<close> is a
    \<^verbatim>\<open>fetch\<close> that throws; \<open>ApiReply status body\<close> a response, whose body is
    \<open>BadJson\<close> when \<^verbatim>\<open>response.json()\<close> or the read of \<^verbatim>\<open>repoData.fork\<close> throws and
    \<open>RepoData fork\<close> otherwise, \<open>fork\<close> being the truthiness of \<^verbatim>\<open>repoData.fork\<close>.
  \<^item> \<open>probe log method url\<close>: a \<^verbatim>\<open>fetch\<close> of \<^verbatim>\<open>checkGeneralUrl\<close>; \<open>None\<close> is a
    \<^verbatim>\<open>fetch\<close> that throws (network error, or the abort after 6 seconds), \<open>Some status\<close>
    the final status of the response.
\<close>

datatype http_method = HEAD | GET

datatype call = ApiCall string string | ProbeCall http_method string

datatype api_body = BadJson | RepoData bool

datatype api_reply = ApiError | ApiReply nat api_body

record net =
  githubApi :: "call list \<Rightarrow> string \<Rightarrow> string \<Rightarrow> api_reply"
  probe :: "call list \<Rightarrow> http_method \<Rightarrow> string \<Rightarrow> nat option"

text \<open>
  The updater's mutable state that validation touches: the memo \<^verbatim>\<open>this.processedUrls\<close>
  (a \<^verbatim>\<open>Set\<close> of strings), and the log of the network requests made so far. The log is
  not a field of the source; it records the effect \<^verbatim>\<open>fetch\<close> so that "no request is
  made" can be stated.
\<close>

record vstate =
  processedUrls :: "string set"
  calls :: "call list"

text \<open>\<^verbatim>\<open>response.ok\<close>: a status from 200 to 299.\<close>

definition responseOk :: "nat \<Rightarrow> bool" where
  "responseOk status = (200 \<le> status \<and> status \<le> 299)"

text \<open>
  \<^verbatim>\<open>checkGeneralUrl(url)\<close>: a HEAD request; on 405 or 403 a GET request; the result is
  \<^verbatim>\<open>response.ok\<close> of the last response, and \<^verbatim>\<open>false\<close> when a request throws.
\<close>

definition checkGeneralUrl :: "('a net_scheme) \<Rightarrow> vstate \<Rightarrow> string \<Rightarrow> bool \<times> vstate" where
  "checkGeneralUrl w st u =
     (let st1 = st\<lparr>calls := calls st @ [ProbeCall HEAD u]\<rparr> in
      case probe w (calls st) HEAD u of
        None \<Rightarrow> (False, st1)
      | Some status \<Rightarrow>
          if status = 405 \<or> status = 403 then
            (let st2 = st1\<lparr>calls := calls st1 @ [ProbeCall GET u]\<rparr> in
             case probe w (calls st1) GET u of
               None \<Rightarrow> (False, st2)
             | Some status2 \<Rightarrow> (responseOk status2, st2))
          else (responseOk status, st1))"

text \<open>
  \<^verbatim>\<open>checkGitHubRepo(url)\<close>: a URL the pattern does not match goes to
  \<^verbatim>\<open>checkGeneralUrl\<close>; otherwise one request to the repository API decides, and every
  exception inside the \<^verbatim>\<open>try\<close> block gives \<^verbatim>\<open>false\<close>.
\<close>

definition checkGitHubRepo :: "('a net_scheme) \<Rightarrow> vstate \<Rightarrow> string \<Rightarrow> bool \<times> vstate" where
  "checkGitHubRepo w st u =
     (case matchGitHub u of
        None \<Rightarrow> checkGeneralUrl w st u
      | Some (owner, rp) \<Rightarrow>
          (let st1 = st\<lparr>calls := calls st @ [ApiCall owner rp]\<rparr> in
           case githubApi w (calls st) owner rp of
             ApiError \<Rightarrow> (False, st1)
           | ApiReply status body \<Rightarrow>
               if status = 200 then
                 (case body of
                    BadJson \<Rightarrow> (False, st1)
                  | RepoData fork \<Rightarrow> if fork then (False, st1) else (True, st1))
               else if status = 404 then (False, st1)
               else if status = 403 then (True, st1)
               else (False, st1)))"

text \<open>
  \<^verbatim>\<open>validateUrl(url)\<close>: a falsy URL is rejected at once; the trimmed URL is looked up in
  the memo, and a URL found there is answered \<^verbatim>\<open>true\<close>; otherwise it is added to the memo
  and checked, through the API when it contains \<^verbatim>\<open>github.com\<close>.
\<close>

definition validateUrl :: "('a net_scheme) \<Rightarrow> vstate \<Rightarrow> string option \<Rightarrow> bool \<times> vstate" where
  "validateUrl w st u =
     (if \<not> truthy u then (False, st)
      else (let u1 = trim (orEmpty u) in
            if u1 \<in> processedUrls st then (True, st)
            else (let st1 = st\<lparr>processedUrls := insert u1 (processedUrls st)\<rparr> in
                  if includesStr u1 ''github.com'' then checkGitHubRepo w st1 u1
                  else checkGeneralUrl w st1 u1)))"

section \<open>Classifier\<close>

text \<open>
  A package as \<^verbatim>\<open>fetchSupplementaryNPM\<close> builds it: \<^verbatim>\<open>name\<close> and \<^verbatim>\<open>description\<close> are
  strings, \<^verbatim>\<open>homepage\<close> may be \<^verbatim>\<open>undefined\<close>, \<^verbatim>\<open>keywords\<close> is an array of strings.
\<close>

record pkg =
  pkg_name :: string
  pkg_description :: string
  pkg_homepage :: "string option"
  pkg_keywords :: "string list"

text \<open>The local object \<^verbatim>\<open>categorized = { plugins: [], themes: [], tools: [] }\<close>.\<close>

record categorized =
  cat_plugins :: "item list"
  cat_themes :: "item list"
  cat_tools :: "item list"

definition emptyCategorized :: categorized where
  "emptyCategorized = \<lparr>cat_plugins = [], cat_themes = [], cat_tools = []\<rparr>"

text \<open>
  \<^verbatim>\<open>{ title: pkg.name, url: pkg.homepage, description: pkg.description }\<close>, the entry
  both categorisation paths push.
\<close>

definition toItem :: "pkg \<Rightarrow> item" where
  "toItem p =
     \<lparr>title = Some (pkg_name p), url = pkg_homepage p, description = Some (pkg_description p),
      homepage = None, repo = None, name = None\<rparr>"

text \<open>
  \<^verbatim>\<open>fallbackCategorization(packages)\<close>: \<open>fallbackText\<close> is the callback's
  \<^verbatim>\<open>const text = `${pkg.name} ${pkg.description}`.toLowerCase()\<close>, and \<open>fallbackStep\<close>
  the body of the \<^verbatim>\<open>forEach\<close> callback, with \<^verbatim>\<open>push\<close> as appending.
\<close>

definition fallbackText :: "pkg \<Rightarrow> string" where
  "fallbackText p = toLowerCase (pkg_name p @ '' '' @ pkg_description p)"

definition fallbackStep :: "categorized \<Rightarrow> pkg \<Rightarrow> categorized" where
  "fallbackStep c p =
     (let text = fallbackText p;
          it = toItem p
      in if includesStr text ''theme'' \<or> includesStr (pkg_name p) ''theme'' then
           c\<lparr>cat_themes := cat_themes c @ [it]\<rparr>
         else if includesStr text ''vscode'' \<or> includesStr text ''cli'' \<or>
                 includesStr text ''generator'' then
           c\<lparr>cat_tools := cat_tools c @ [it]\<rparr>
         else c\<lparr>cat_plugins := cat_plugins c @ [it]\<rparr>)"

definition fallbackCategorization :: "pkg list \<Rightarrow> categorized" where
  "fallbackCategorization packages = foldl fallbackStep emptyCategorized packages"

text \<open>
  The categorisation service, as \<^verbatim>\<open>categorizeSupplementary\<close> sees it for a list of
  packages:
  \<^item> \<open>AiThrows\<close>: something in the \<^verbatim>\<open>try\<close> block throws (no token, a failed or
    unsuccessful request, \<^verbatim>\<open>JSON.parse\<close>, a category without \<^verbatim>\<open>includes\<close>);
  \<^item> \<open>AiNoObject\<close>: the response text has no \<^verbatim>\<open>{...}\<close>;
  \<^item> \<open>AiObject f\<close>: the parsed object, \<open>f i\<close> being its string at key \<open>i\<close> (the keys
    \<^verbatim>\<open>i\<close> and \<^verbatim>\<open>String(i)\<close> name the same property). Values are taken to be strings, as
    the prompt asks for.
\<close>

datatype ai_outcome = AiThrows | AiNoObject | AiObject "nat \<Rightarrow> string option"

definition aiStep :: "(nat \<Rightarrow> string option) \<Rightarrow> categorized \<Rightarrow> nat \<times> pkg \<Rightarrow> categorized" where
  "aiStep f c ip =
     (let category = orEmpty (orElse (orElse (f (fst ip)) (f (fst ip))) (Some ''plugin''));
          it = toItem (snd ip)
      in if includesStr category ''theme'' then c\<lparr>cat_themes := cat_themes c @ [it]\<rparr>
         else if includesStr category ''tool'' then c\<lparr>cat_tools := cat_tools c @ [it]\<rparr>
         else c\<lparr>cat_plugins := cat_plugins c @ [it]\<rparr>)"

text \<open>\<^verbatim>\<open>categorizeSupplementary(packages)\<close>, given the service's outcome.\<close>

definition categorizeSupplementary :: "(pkg list \<Rightarrow> ai_outcome) \<Rightarrow> pkg list \<Rightarrow> categorized" where
  "categorizeSupplementary ai packages =
     (if packages = [] then emptyCategorized
      else (case ai packages of
              AiThrows \<Rightarrow> fallbackCategorization packages
            | AiNoObject \<Rightarrow> fallbackCategorization packages
            | AiObject f \<Rightarrow>
                foldl (aiStep f) emptyCategorized (zip [0 ..< length packages] packages)))"

section \<open>Origins\<close>

text \<open>\<^verbatim>\<open>this.officialData\<close>.\<close>

record catalog =
  plugins :: "item list"
  themes :: "item list"
  tools :: "item list"
  videos :: "item list"
  articles :: "item list"
  showcases :: "item list"

text \<open>
  A file of the showcase listing: its name, and what \<^verbatim>\<open>yaml.load\<close> gives for its
  content. \<open>file_doc = None\<close> stands for an exception inside the per-file \<^verbatim>\<open>try\<close> block
  (the download or the parser throws, the document is not an object).
\<close>

record yaml_doc =
  doc_categories :: "string list"
  doc_title :: "string option"
  doc_url :: "string option"

record showcase_file =
  file_name :: string
  file_doc :: "yaml_doc option"

text \<open>
  The request for the listing: \<open>ListingThrows\<close> when \<^verbatim>\<open>fetch\<close>, \<^verbatim>\<open>response.json()\<close> or
  the filter on the file names throws, \<open>ListingNotOk\<close> for a response that is not
  \<^verbatim>\<open>ok\<close>, \<open>Listing files\<close> otherwise.
\<close>

datatype listing = ListingThrows | ListingNotOk | Listing "showcase_file list"

text \<open>A package of the registry's search result (\<^verbatim>\<open>pkg.package\<close>).\<close>

record npm_package =
  npm_name :: string
  npm_description :: "string option"
  npm_homepage :: "string option"
  npm_repository :: "string option"
  npm_keywords :: "string list option"

text \<open>
  What the four markup parsers (\<^verbatim>\<open>parseLinkCard\<close>, \<^verbatim>\<open>parseThemeGrid\<close>,
  \<^verbatim>\<open>parseYouTubeGrid\<close>, \<^verbatim>\<open>parseCardComponent\<close>) push: an object with the three
  strings \<^verbatim>\<open>title\<close>, \<^verbatim>\<open>url\<close> and \<^verbatim>\<open>description\<close>, and no other property.
  \<open>linkItem\<close> is that object as an item.
\<close>

record link =
  link_title :: string
  link_url :: string
  link_description :: string

definition linkItem :: "link \<Rightarrow> item" where
  "linkItem l =
     \<lparr>title = Some (link_title l), url = Some (link_url l),
      description = Some (link_description l), homepage = None, repo = None, name = None\<rparr>"

text \<open>
  The world of one run: the network of the validator, what each origin answers, and
  the file system and command line that \<^verbatim>\<open>updateReadme\<close> meets.
  The regular expressions of the markup parsers are not modelled: for each official
  page the world gives the objects its parser returns, or \<open>None\<close> when \<^verbatim>\<open>fetchText\<close>
  throws (a network error, or a response that is not \<^verbatim>\<open>ok\<close>). The community page
  gives (articles, videos). \<open>npmSearch q\<close> is \<^verbatim>\<open>(await this.searchNPM(q)).objects\<close>,
  \<open>None\<close> when \<^verbatim>\<open>searchNPM\<close> throws. \<open>localeCompare a b\<close> is
  \<^verbatim>\<open>a.localeCompare(b)\<close>. \<open>readmeFile\<close> is the content of \<^verbatim>\<open>README.md\<close>, \<open>None\<close>
  when \<^verbatim>\<open>fs.readFile\<close> throws; \<open>writeFails\<close> says that \<^verbatim>\<open>fs.writeFile\<close> throws;
  \<open>dryRun\<close> is \<^verbatim>\<open>DRY_RUN\<close>.
\<close>

record world = net +
  officialPlugins :: "link list option"
  officialThemes :: "link list option"
  officialCommunity :: "(link list \<times> link list) option"
  officialShowcases :: "link list option"
  showcaseListing :: listing
  npmSearch :: "string \<Rightarrow> npm_package list option"
  aiReply :: "pkg list \<Rightarrow> ai_outcome"
  localeCompare :: "string \<Rightarrow> string \<Rightarrow> int"
  readmeFile :: "string option"
  writeFails :: bool
  dryRun :: bool

text \<open>
  The exceptions that reach the \<^verbatim>\<open>catch\<close> of \<^verbatim>\<open>run\<close>: those that leave
  \<^verbatim>\<open>collectAllData\<close>, and those of \<^verbatim>\<open>updateReadme\<close>.
\<close>

datatype run_error =
  FetchFailed | NpmSearchError | ReadmeUnreadable | MarkersNotFound | WriteFailed

text \<open>
  \<^verbatim>\<open>fetchOfficialSources()\<close>: \<^verbatim>\<open>Promise.all\<close> over the four pages, with no \<^verbatim>\<open>catch\<close>;
  it rejects as soon as one of them does.
\<close>

definition fetchOfficialSources :: "world \<Rightarrow> run_error + catalog" where
  "fetchOfficialSources w =
     (case officialPlugins w of
        None \<Rightarrow> Inl FetchFailed
      | Some ps \<Rightarrow>
     (case officialThemes w of
        None \<Rightarrow> Inl FetchFailed
      | Some ts \<Rightarrow>
     (case officialCommunity w of
        None \<Rightarrow> Inl FetchFailed
      | Some (as, vs) \<Rightarrow>
     (case officialShowcases w of
        None \<Rightarrow> Inl FetchFailed
      | Some ss \<Rightarrow>
          Inr \<lparr>plugins = map linkItem ps, themes = map linkItem ts, tools = [],
               videos = map linkItem vs, articles = map linkItem as,
               showcases = map linkItem ss\<rparr>))))"

text \<open>
  The per-file tasks of \<^verbatim>\<open>fetchAstroShowcase\<close>, and \<^verbatim>\<open>results.filter(Boolean)\<close>. The
  source starts all tasks at once and joins them; each call of \<^verbatim>\<open>validateUrl\<close> reads and
  writes the memo before its first \<^verbatim>\<open>await\<close>. The model runs the tasks in the order of
  the listing.
\<close>

fun showcaseSites :: "world \<Rightarrow> vstate \<Rightarrow> showcase_file list \<Rightarrow> item list \<times> vstate" where
  "showcaseSites w st [] = ([], st)"
| "showcaseSites w st (f # fs) =
     (case file_doc f of
        None \<Rightarrow> showcaseSites w st fs
      | Some d \<Rightarrow>
          if ''starlight'' \<in> set (doc_categories d) then
            (let site = \<lparr>title = doc_title d, url = doc_url d, description = Some [],
                         homepage = None, repo = None, name = None\<rparr>;
                 (isValid, st1) = validateUrl w st (url site);
                 (rest, st2) = showcaseSites w st1 fs
             in (if isValid then site # rest else rest, st2))
          else showcaseSites w st fs)"

text \<open>\<^verbatim>\<open>fetchAstroShowcase()\<close>: every failure of the listing gives the empty list.\<close>

definition fetchAstroShowcase :: "world \<Rightarrow> vstate \<Rightarrow> item list \<times> vstate" where
  "fetchAstroShowcase w st =
     (case showcaseListing w of
        ListingThrows \<Rightarrow> ([], st)
      | ListingNotOk \<Rightarrow> ([], st)
      | Listing files \<Rightarrow>
          showcaseSites w st (filter (\<lambda>f. endsWith (file_name f) ''.yml'') files))"

text \<open>
  \<^verbatim>\<open>Map.prototype.set\<close> on a map kept as a list of entries in insertion order: a key
  that is present keeps its place and gets the new value.
\<close>

fun mapSet :: "string \<Rightarrow> pkg \<Rightarrow> (string \<times> pkg) list \<Rightarrow> (string \<times> pkg) list" where
  "mapSet k v [] = [(k, v)]"
| "mapSet k v (e # es) = (if fst e = k then (k, v) # es else e # mapSet k v es)"

definition addPackage :: "(string \<times> pkg) list \<Rightarrow> npm_package \<Rightarrow> (string \<times> pkg) list" where
  "addPackage m p =
     (if includesStr (npm_name p) ''starlight'' \<or> startsWith (npm_name p) ''@astrojs/starlight''
      then mapSet (npm_name p)
             \<lparr>pkg_name = npm_name p,
              pkg_description = orEmpty (orElse (npm_description p) (Some [])),
              pkg_homepage = orElse (npm_homepage p) (npm_repository p),
              pkg_keywords = (case npm_keywords p of None \<Rightarrow> [] | Some ks \<Rightarrow> ks)\<rparr> m
      else m)"

text \<open>
  \<^verbatim>\<open>fetchSupplementaryNPM()\<close>: the two searches in turn, with no \<^verbatim>\<open>catch\<close>; the
  packages are \<^verbatim>\<open>Array.from(allPackages.values())\<close>.
\<close>

definition fetchSupplementaryNPM :: "world \<Rightarrow> run_error + pkg list" where
  "fetchSupplementaryNPM w =
     (case npmSearch w ''starlight-'' of
        None \<Rightarrow> Inl NpmSearchError
      | Some r1 \<Rightarrow>
     (case npmSearch w ''@astrojs/starlight'' of
        None \<Rightarrow> Inl NpmSearchError
      | Some r2 \<Rightarrow> Inr (map snd (foldl addPackage (foldl addPackage [] r1) r2))))"

section \<open>Aggregator\<close>

definition allOfficialItems :: "catalog \<Rightarrow> item list" where
  "allOfficialItems d = plugins d @ themes d @ tools d @ videos d @ articles d @ showcases d"

text \<open>\<^verbatim>\<open>keywords.join(" ")\<close>.\<close>

fun joinSpace :: "string list \<Rightarrow> string" where
  "joinSpace [] = []"
| "joinSpace [k] = k"
| "joinSpace (k # ks) = k @ '' '' @ joinSpace ks"

text \<open>
  The loop of \<^verbatim>\<open>filterSupplementaryPackages(packages)\<close> over the packages, against the
  official items collected before it; each \<^verbatim>\<open>continue\<close> is a branch that drops the
  package.
\<close>

fun filterPackages :: "world \<Rightarrow> vstate \<Rightarrow> item list \<Rightarrow> pkg list \<Rightarrow> pkg list \<times> vstate" where
  "filterPackages w st official [] = ([], st)"
| "filterPackages w st official (p # ps) =
     (let pkgItem = \<lparr>title = None, url = pkg_homepage p, description = None,
                     homepage = None, repo = None, name = Some (pkg_name p)\<rparr>
      in if list_ex (\<lambda>off. isDuplicate pkgItem off) official then
           filterPackages w st official ps
         else
           (let text = toLowerCase (pkg_name p @ '' '' @ pkg_description p @ '' '' @
                                    joinSpace (pkg_keywords p));
                isOfficialScope = startsWith (pkg_name p) ''@astrojs/'';
                mentionsAstro = includesStr text ''astro'';
                mentionsStarlight = includesStr text ''starlight''
            in if \<not> isOfficialScope \<and> \<not> mentionsAstro then filterPackages w st official ps
               else if \<not> mentionsStarlight \<and> \<not> includesStr (pkg_name p) ''starlight'' then
                 filterPackages w st official ps
               else
                 (let (isValidLink, st1) = validateUrl w st (pkg_homepage p) in
                  if \<not> isValidLink then filterPackages w st1 official ps
                  else (let (rest, st2) = filterPackages w st1 official ps
                        in (p # rest, st2)))))"

definition filterSupplementaryPackages ::
    "world \<Rightarrow> vstate \<Rightarrow> catalog \<Rightarrow> pkg list \<Rightarrow> pkg list \<times> vstate" where
  "filterSupplementaryPackages w st d packages =
     filterPackages w st (allOfficialItems d) packages"

text \<open>\<^verbatim>\<open>s.split("/")\<close>.\<close>

fun splitOn :: "char \<Rightarrow> string \<Rightarrow> string list" where
  "splitOn c [] = [[]]"
| "splitOn c (x # xs) =
     (if x = c then [] # splitOn c xs
      else (case splitOn c xs of
              [] \<Rightarrow> [[x]]
            | p # ps \<Rightarrow> (x # p) # ps))"

text \<open>\<^verbatim>\<open>sortByPackageName(name)\<close>.\<close>

definition sortByPackageName :: "string option \<Rightarrow> string" where
  "sortByPackageName n =
     (let n1 = toLowerCase (trim (orEmpty n)) in
      if startsWith n1 ''@'' then
        (case splitOn CHR ''/'' n1 of
           p0 # p1 # ps \<Rightarrow> p1
         | _ \<Rightarrow> n1)
      else n1)"

text \<open>
  \<^verbatim>\<open>Array.prototype.sort\<close> with the comparator of \<^verbatim>\<open>collectAllData\<close>. The sort is
  stable; for a comparator that orders the keys consistently a stable sort has a single
  result, the one insertion computes.
\<close>

fun insertItem :: "(string \<Rightarrow> string \<Rightarrow> int) \<Rightarrow> item \<Rightarrow> item list \<Rightarrow> item list" where
  "insertItem cmp x [] = [x]"
| "insertItem cmp x (y # ys) =
     (if cmp (sortByPackageName (title x)) (sortByPackageName (title y)) \<le> 0 then x # y # ys
      else y # insertItem cmp x ys)"

definition sortItems :: "(string \<Rightarrow> string \<Rightarrow> int) \<Rightarrow> item list \<Rightarrow> item list" where
  "sortItems cmp xs = foldr (insertItem cmp) xs []"

text \<open>The loop that merges the showcase sites (lines 635 to 641).\<close>

fun mergeShowcases :: "item list \<Rightarrow> item list \<Rightarrow> item list" where
  "mergeShowcases existing [] = existing"
| "mergeShowcases existing (site # sites) =
     mergeShowcases
       (if list_ex (\<lambda>ex. isDuplicate site ex) existing then existing else existing @ [site])
       sites"

text \<open>
  The filter on the new themes (lines 650 to 658): a theme is kept when no theme of
  the list is its duplicate, has its title or is likely the same theme.
\<close>

definition newThemes :: "item list \<Rightarrow> item list \<Rightarrow> item list" where
  "newThemes existing candidates =
     filter
       (\<lambda>theme. \<not> list_ex (\<lambda>ex. isDuplicate theme ex \<or> isSameTitle theme ex \<or>
                                  isLikelySameTheme theme ex) existing)
       candidates"

text \<open>
  \<^verbatim>\<open>collectAllData()\<close>. An exception of \<^verbatim>\<open>fetchOfficialSources\<close> or
  \<^verbatim>\<open>fetchSupplementaryNPM\<close> ends it (\<open>Inl\<close>); otherwise it returns the catalog and the
  validator's state.
\<close>

definition collectAllData :: "world \<Rightarrow> vstate \<Rightarrow> run_error + (catalog \<times> vstate)" where
  "collectAllData w st =
     (case fetchOfficialSources w of
        Inl e \<Rightarrow> Inl e
      | Inr d0 \<Rightarrow>
          (let (astroShowcases, st1) = fetchAstroShowcase w st;
               d1 = d0\<lparr>showcases := mergeShowcases (showcases d0) astroShowcases\<rparr>
           in case fetchSupplementaryNPM w of
                Inl e \<Rightarrow> Inl e
              | Inr npmPackages \<Rightarrow>
                  (let (filtered, st2) = filterSupplementaryPackages w st1 d1 npmPackages;
                       cat = categorizeSupplementary (aiReply w) filtered;
                       d2 = d1\<lparr>plugins := plugins d1 @ cat_plugins cat,
                               themes := themes d1 @ newThemes (themes d1) (cat_themes cat),
                               tools := tools d1 @ cat_tools cat\<rparr>;
                       srt = sortItems (localeCompare w)
                   in Inr (\<lparr>plugins = srt (plugins d2), themes = srt (themes d2),
                            tools = srt (tools d2), videos = srt (videos d2),
                            articles = srt (articles d2), showcases = srt (showcases d2)\<rparr>,
                           st2))))"

text \<open>The state a new updater starts with: \<^verbatim>\<open>this.processedUrls = new Set()\<close>.\<close>

definition initialState :: vstate where
  "initialState = \<lparr>processedUrls = {}, calls = []\<rparr>"

section \<open>Rendering and the run\<close>

text \<open>The line feed, and \<^verbatim>\<open>parts.join(sep)\<close>.\<close>

definition newline :: string where
  "newline = [CHR 0x0A]"

fun joinWith :: "string \<Rightarrow> string list \<Rightarrow> string" where
  "joinWith sep [] = []"
| "joinWith sep [k] = k"
| "joinWith sep (k # ks) = k @ sep @ joinWith sep ks"

text \<open>
  \<^verbatim>\<open>formatMarkdownItem(item)\<close>: \<open>None\<close> is \<^verbatim>\<open>null\<close>, for an item without a title or
  without a URL.
\<close>

definition formatMarkdownItem :: "item \<Rightarrow> string option" where
  "formatMarkdownItem it =
     (if \<not> truthy (title it) \<or> \<not> truthy (url it) then None
      else Some (''- ['' @ orEmpty (title it) @ '']('' @ orEmpty (url it) @ '')'' @
                 (if truthy (description it) then '' - '' @ orEmpty (description it)
                  else [])))"

text \<open>\<^verbatim>\<open>items.map((i) => this.formatMarkdownItem(i)).filter(Boolean)\<close>.\<close>

fun formatItems :: "item list \<Rightarrow> string list" where
  "formatItems [] = []"
| "formatItems (it # its) =
     (case formatMarkdownItem it of
        None \<Rightarrow> formatItems its
      | Some md \<Rightarrow> md # formatItems its)"

text \<open>The local function \<^verbatim>\<open>addSection(title, items, desc)\<close> of \<^verbatim>\<open>generateMarkdown\<close>.\<close>

definition addSection :: "string list \<Rightarrow> string \<Rightarrow> item list \<Rightarrow> string \<Rightarrow> string list" where
  "addSection sections t items desc =
     (if items \<noteq> [] then
        sections @ [''## '' @ t @ newline @ newline @ desc @ joinWith newline (formatItems items)]
      else sections)"

text \<open>\<^verbatim>\<open>generateMarkdown()\<close>.\<close>

definition generateMarkdown :: "catalog \<Rightarrow> string" where
  "generateMarkdown d =
     (let s1 = addSection [] ''Plugins & Integrations'' (plugins d) [];
          s2 = addSection s1 ''Themes'' (themes d)
                 (''Discover beautiful themes for your Starlight documentation:'' @
                  newline @ newline);
          s3 = addSection s2 ''Tools'' (tools d)
                 (''Development tools and utilities for Starlight:'' @ newline @ newline);
          s4 = addSection s3 ''Showcases'' (showcases d)
                 (''Real-world documentation sites built with Starlight:'' @
                  newline @ newline);
          s5 = addSection s4 ''Videos'' (videos d)
                 (''Video tutorials and screencasts:'' @ newline @ newline);
          s6 = addSection s5 ''Articles & Case Studies'' (articles d) []
      in joinWith (newline @ newline) s6)"

text \<open>\<^verbatim>\<open>s.indexOf(p)\<close>, with \<open>None\<close> for \<^verbatim>\<open>-1\<close>.\<close>

fun indexOf :: "string \<Rightarrow> string \<Rightarrow> nat option" where
  "indexOf [] p = (if p = [] then Some 0 else None)"
| "indexOf (c # cs) p =
     (if startsWith (c # cs) p then Some 0 else map_option Suc (indexOf cs p))"

definition startMarker :: string where
  "startMarker = ''<!-- AUTOMATED_CONTENT_START -->''"

definition endMarker :: string where
  "endMarker = ''<!-- AUTOMATED_CONTENT_END -->''"

text \<open>
  \<^verbatim>\<open>updateReadme()\<close>, for the catalog \<^verbatim>\<open>this.officialData\<close>: the result is the content
  written to \<^verbatim>\<open>README.md\<close>, or \<open>None\<close> on a dry run, where nothing is written.
\<close>

definition updateReadme :: "world \<Rightarrow> catalog \<Rightarrow> run_error + string option" where
  "updateReadme w d =
     (case readmeFile w of
        None \<Rightarrow> Inl ReadmeUnreadable
      | Some readme \<Rightarrow>
          (case indexOf readme startMarker of
             None \<Rightarrow> Inl MarkersNotFound
           | Some startIndex \<Rightarrow>
               (case indexOf readme endMarker of
                  None \<Rightarrow> Inl MarkersNotFound
                | Some endIndex \<Rightarrow>
                    (let newContent = generateMarkdown d;
                         before = take (startIndex + length startMarker) readme;
                         after = drop endIndex readme;
                         readme1 = before @ newline @ newline @ newContent @
                                   newline @ newline @ after
                     in if dryRun w then Inr None
                        else if writeFails w then Inl WriteFailed
                        else Inr (Some readme1)))))"

text \<open>
  \<^verbatim>\<open>run()\<close>: the run is complete when \<^verbatim>\<open>collectAllData\<close> and \<^verbatim>\<open>updateReadme\<close> both
  return; an exception of either is caught, its message printed, and the process left by
  \<^verbatim>\<open>process.exit(1)\<close>. \<open>Exit n\<close> is the process ending with status \<open>n\<close>.
\<close>

datatype run_outcome = Complete "string option" | Exit nat

definition run :: "world \<Rightarrow> vstate \<Rightarrow> run_outcome" where
  "run w st =
     (case collectAllData w st of
        Inl e \<Rightarrow> Exit 1
      | Inr (d, st1) \<Rightarrow>
          (case updateReadme w d of
             Inl e \<Rightarrow> Exit 1
           | Inr written \<Rightarrow> Complete written))"

section \<open>Example inputs\<close>

text \<open>Items with a single property, for the concrete instances below.\<close>

definition urlItem :: "string \<Rightarrow> item" where
  "urlItem u =
     \<lparr>title = None, url = Some u, description = None, homepage = None, repo = None,
      name = None\<rparr>"

definition homepageItem :: "string \<Rightarrow> item" where
  "homepageItem h =
     \<lparr>title = None, url = None, description = None, homepage = Some h, repo = None,
      name = None\<rparr>"

definition titleItem :: "string \<Rightarrow> item" where
  "titleItem t =
     \<lparr>title = Some t, url = None, description = None, homepage = None, repo = None,
      name = None\<rparr>"

text \<open>A network whose repository API gives one answer, and whose probes all fail.\<close>

definition apiWorld :: "api_reply \<Rightarrow> net" where
  "apiWorld r = \<lparr>githubApi = (\<lambda>log owner rp. r), probe = (\<lambda>log m u. None)\<rparr>"

text \<open>Three packages for the fallback categorisation, and one more.\<close>

definition novaPkg :: pkg where
  "novaPkg =
     \<lparr>pkg_name = ''starlight-theme-nova'', pkg_description = ''Clean and modern'',
      pkg_homepage = Some ''https://github.com/fevol/starlight-theme-nova'',
      pkg_keywords = []\<rparr>"

definition vscodePkg :: pkg where
  "vscodePkg =
     \<lparr>pkg_name = ''starlight-i18n'', pkg_description = ''VSCode extension for translations'',
      pkg_homepage = Some ''https://github.com/hideoo/starlight-i18n'',
      pkg_keywords = []\<rparr>"

definition blogPkg :: pkg where
  "blogPkg =
     \<lparr>pkg_name = ''starlight-blog'', pkg_description = ''Add a blog to your site'',
      pkg_homepage = Some ''https://github.com/hideoo/starlight-blog'',
      pkg_keywords = []\<rparr>"

definition vsCodePkg :: pkg where
  "vsCodePkg =
     \<lparr>pkg_name = ''starlight-i18n'', pkg_description = ''VS Code extension'',
      pkg_homepage = Some ''https://github.com/hideoo/starlight-i18n'',
      pkg_keywords = []\<rparr>"

text \<open>A comparison of strings by character code, standing for \<^verbatim>\<open>localeCompare\<close>.\<close>

fun asciiCompare :: "string \<Rightarrow> string \<Rightarrow> int" where
  "asciiCompare [] [] = 0"
| "asciiCompare [] (b # bs) = - 1"
| "asciiCompare (a # as) [] = 1"
| "asciiCompare (a # as) (b # bs) =
     (if (of_char a :: nat) < of_char b then - 1
      else if (of_char b :: nat) < of_char a then 1
      else asciiCompare as bs)"

text \<open>
  A world in which every origin answers and has nothing to say, every repository
  exists and is no fork, every probe succeeds, the categorisation service fails, and
  \<^verbatim>\<open>README.md\<close> holds a heading and the two markers.
\<close>

definition quietWorld :: world where
  "quietWorld =
     \<lparr>githubApi = (\<lambda>log owner rp. ApiReply 200 (RepoData False)),
      probe = (\<lambda>log m u. Some 200),
      officialPlugins = Some [], officialThemes = Some [],
      officialCommunity = Some ([], []), officialShowcases = Some [],
      showcaseListing = Listing [],
      npmSearch = (\<lambda>q. Some []),
      aiReply = (\<lambda>ps. AiThrows),
      localeCompare = asciiCompare,
      readmeFile = Some (''# Awesome Starlight'' @ newline @ startMarker @ endMarker),
      writeFails = False,
      dryRun = False\<rparr>"

definition entry :: "string \<Rightarrow> string \<Rightarrow> item" where
  "entry t u =
     \<lparr>title = Some t, url = Some u, description = Some [], homepage = None, repo = None,
      name = None\<rparr>"

definition linkEntry :: "string \<Rightarrow> string \<Rightarrow> link" where
  "linkEntry t u = \<lparr>link_title = t, link_url = u, link_description = []\<rparr>"

definition npmEntry :: "string \<Rightarrow> string \<Rightarrow> string \<Rightarrow> npm_package" where
  "npmEntry n d h =
     \<lparr>npm_name = n, npm_description = Some d, npm_homepage = Some h, npm_repository = None,
      npm_keywords = None\<rparr>"

text \<open>
  \<open>entry t u\<close> is the item of \<open>linkEntry t u\<close>, and \<open>npmPkg n d h\<close> the package that
  \<^verbatim>\<open>fetchSupplementaryNPM\<close> makes of \<open>npmEntry n d h\<close>.
\<close>

definition npmPkg :: "string \<Rightarrow> string \<Rightarrow> string \<Rightarrow> pkg" where
  "npmPkg n d h =
     \<lparr>pkg_name = n, pkg_description = d, pkg_homepage = Some h, pkg_keywords = []\<rparr>"

text \<open>
  The showcase listing does not answer \<^verbatim>\<open>ok\<close>; an official page cannot be fetched; the
  registry search fails.
\<close>

definition showcaseDownWorld :: world where
  "showcaseDownWorld = quietWorld
     \<lparr>officialShowcases := Some [linkEntry ''Astro'' ''https://docs.astro.build''],
      showcaseListing := ListingNotOk\<rparr>"

definition officialDownWorld :: world where
  "officialDownWorld = quietWorld\<lparr>officialPlugins := None\<rparr>"

definition npmDownWorld :: world where
  "npmDownWorld = quietWorld\<lparr>npmSearch := (\<lambda>q. None)\<rparr>"

text \<open>
  Two official plugin entries for one repository, and two packages of the registry
  whose home page is one repository.
\<close>

definition dupWorld :: world where
  "dupWorld = quietWorld
     \<lparr>officialPlugins :=
        Some [linkEntry ''Blog'' ''https://github.com/HiDeoo/starlight-blog'',
              linkEntry ''Blog docs'' ''https://github.com/hideoo/starlight-blog/''],
      npmSearch := (\<lambda>q. if q = ''starlight-'' then
        Some [npmEntry ''starlight-kbd'' ''Astro Starlight plugin''
                ''https://github.com/x/mono'',
              npmEntry ''starlight-zoom'' ''Astro Starlight plugin''
                ''https://github.com/x/mono'']
        else Some [])\<rparr>"

text \<open>
  One official plugin, theme and showcase; one site in the showcase listing; a plugin
  and a theme in the registry.
\<close>

definition mergeWorld :: world where
  "mergeWorld = quietWorld
     \<lparr>officialPlugins :=
        Some [linkEntry ''Blog'' ''https://github.com/hideoo/starlight-blog''],
      officialThemes :=
        Some [linkEntry ''Rapide'' ''https://starlight-theme-rapide.vercel.app''],
      officialShowcases := Some [linkEntry ''Astro'' ''https://docs.astro.build''],
      showcaseListing := Listing
        [\<lparr>file_name = ''biome.yml'',
          file_doc = Some \<lparr>doc_categories = [''starlight''], doc_title = Some ''Biome'',
                           doc_url = Some ''https://biomejs.dev''\<rparr>\<rparr>],
      npmSearch := (\<lambda>q. if q = ''starlight-'' then
        Some [npmEntry ''starlight-zoom'' ''Astro Starlight plugin''
                ''https://github.com/x/zoom'',
              npmEntry ''starlight-theme-nova'' ''Astro Starlight theme''
                ''https://github.com/x/nova'']
        else Some [])\<rparr>"

section \<open>Properties of the normalizer and the matcher\<close>

lemma lowerChar_slash: "lowerChar c = CHR ''/'' \<longleftrightarrow> c = CHR ''/''"
  by (simp add: lowerChar_def)

lemma endsWith_slash: "endsWith s ''/'' \<longleftrightarrow> s \<noteq> [] \<and> last s = CHR ''/''"
proof (cases s rule: rev_cases)
  case Nil
  then show ?thesis by (simp add: endsWith_def)
next
  case (snoc ys y)
  then show ?thesis by (auto simp add: endsWith_def)
qed

lemma endsWith_two_slashes: "endsWith s ''//'' \<longleftrightarrow> (\<exists>t. s = t @ ''//'')"
proof (cases s rule: rev_cases)
  case Nil
  then show ?thesis by (simp add: endsWith_def)
next
  case (snoc ys y)
  note outer = this
  show ?thesis
  proof (cases ys rule: rev_cases)
    case Nil
    with outer show ?thesis by (simp add: endsWith_def)
  next
    case (snoc zs z)
    with outer show ?thesis by (auto simp add: endsWith_def)
  qed
qed

lemma toLowerCase_snoc: "toLowerCase (t @ [c]) = toLowerCase t @ [lowerChar c]"
  by (simp add: toLowerCase_def)

lemma toLowerCase_idem: "toLowerCase (toLowerCase s) = toLowerCase s"
  by (simp add: toLowerCase_def lowerChar_def)

lemma normalizeUrl_Nil: "normalizeUrl [] = []"
  by (simp add: normalizeUrl_def stripTrailingSlash_def endsWith_def toLowerCase_def)

lemma normalizeUrl_snoc:
  "normalizeUrl (t @ [c]) =
     (if c = CHR ''/'' then toLowerCase t else toLowerCase t @ [lowerChar c])"
  by (simp add: normalizeUrl_def stripTrailingSlash_def endsWith_slash toLowerCase_snoc
        lowerChar_slash)

text \<open>
  Claim C6, as the code has it. \<^verbatim>\<open>isDuplicate\<close> normalises a URL by lower-casing it and
  removing one slash at its end; it does not trim. Normalising twice gives the same as
  normalising once exactly for the strings that do not end in two slashes.
\<close>

theorem normalizeUrl_idempotent_iff:
  "normalizeUrl (normalizeUrl u) = normalizeUrl u \<longleftrightarrow> \<not> endsWith u ''//''"
proof (cases u rule: rev_cases)
  case Nil
  then show ?thesis by (simp add: normalizeUrl_Nil endsWith_def)
next
  case (snoc t c)
  note outer = this
  show ?thesis
  proof (cases "c = CHR ''/''")
    case False
    have "normalizeUrl u = toLowerCase t @ [lowerChar c]"
      using outer False by (simp add: normalizeUrl_snoc)
    moreover have "lowerChar (lowerChar c) = lowerChar c" by (simp add: lowerChar_def)
    moreover have "lowerChar c \<noteq> CHR ''/''" using False by (simp add: lowerChar_slash)
    ultimately have "normalizeUrl (normalizeUrl u) = normalizeUrl u"
      by (simp add: normalizeUrl_snoc toLowerCase_idem)
    moreover have "\<not> endsWith u ''//''"
      using outer False by (auto simp: endsWith_two_slashes)
    ultimately show ?thesis by simp
  next
    case True
    have nu: "normalizeUrl u = toLowerCase t"
      using outer True by (simp add: normalizeUrl_snoc)
    show ?thesis
    proof (cases t rule: rev_cases)
      case Nil
      with nu outer True show ?thesis
        by (simp add: normalizeUrl_Nil toLowerCase_def endsWith_def)
    next
      case (snoc t2 d)
      show ?thesis
      proof (cases "d = CHR ''/''")
        case True
        have "normalizeUrl (normalizeUrl u) = toLowerCase t2"
          using nu snoc True
          by (simp add: toLowerCase_snoc normalizeUrl_snoc lowerChar_slash toLowerCase_idem)
        moreover have "normalizeUrl u = toLowerCase t2 @ ''/''"
          using nu snoc True by (simp add: toLowerCase_snoc lowerChar_def)
        moreover have "endsWith u ''//''"
          using outer snoc True \<open>c = CHR ''/''\<close> by (simp add: endsWith_two_slashes)
        ultimately show ?thesis by simp
      next
        case False
        have "normalizeUrl (normalizeUrl u) = normalizeUrl u"
          using nu snoc False
          by (simp add: toLowerCase_snoc normalizeUrl_snoc lowerChar_slash toLowerCase_idem
                lowerChar_def)
        moreover have "\<not> endsWith u ''//''"
          using outer snoc False by (auto simp: endsWith_two_slashes)
        ultimately show ?thesis by simp
      qed
    qed
  qed
qed

text \<open>
  Against C6 as stated: on \<^verbatim>\<open>"a//"\<close> the second normalisation removes another slash,
  and white space around a URL is kept.
\<close>

theorem normalizeUrl_not_idempotent:
  "normalizeUrl (normalizeUrl ''a//'') \<noteq> normalizeUrl ''a//'' \<and>
   normalizeUrl '' a '' = '' a ''"
  by (simp add: normalizeUrl_def stripTrailingSlash_def endsWith_def toLowerCase_def
        lowerChar_def)

lemma getRepo_falsy: "\<not> truthy v \<Longrightarrow> getRepo v = None"
  by (auto simp: truthy_def getRepo_def matchGitHubAt_def split: option.splits)

lemma orElse_truthy: "truthy a \<Longrightarrow> orElse a b = a"
  by (simp add: orElse_def)

lemma normalizeUrl_falsy: "\<not> truthy v \<Longrightarrow> normalizeUrl (orEmpty v) = []"
  by (auto simp: truthy_def orEmpty_def normalizeUrl_Nil split: option.splits)

lemma normalizeUrl_empty: "normalizeUrl s = [] \<Longrightarrow> s = [] \<or> s = ''/''"
  by (cases s rule: rev_cases) (auto simp: normalizeUrl_snoc toLowerCase_def split: if_splits)

lemma normalizeUrl_empty_getRepo: "normalizeUrl s = [] \<Longrightarrow> getRepo (Some s) = None"
  by (auto dest!: normalizeUrl_empty simp: getRepo_def matchGitHubAt_def)

text \<open>
  Claim C7, as the code has it. \<^verbatim>\<open>isDuplicate(a, a)\<close> is true exactly when \<^verbatim>\<open>a.url\<close> is
  present and its normalisation is not empty. The second argument is read through
  \<^verbatim>\<open>url\<close> alone, and both tests ask for non-empty values, so an item without \<^verbatim>\<open>url\<close>
  (with or without a \<^verbatim>\<open>homepage\<close>) is not its own duplicate.
\<close>

theorem isDuplicate_self_iff:
  "isDuplicate a a \<longleftrightarrow> normalizeUrl (orEmpty (url a)) \<noteq> []"
proof (cases "truthy (url a)")
  case True
  then obtain s where s: "url a = Some s"
    by (auto simp: truthy_def split: option.splits)
  have "normalizeUrl s = [] \<Longrightarrow> \<not> truthy (getRepo (Some s))"
    by (simp add: normalizeUrl_empty_getRepo truthy_def)
  with True s show ?thesis
    by (auto simp: isDuplicate_def Let_def orElse_truthy orEmpty_def)
next
  case False
  then show ?thesis
    by (simp add: isDuplicate_def Let_def normalizeUrl_falsy getRepo_falsy truthy_def)
qed

text \<open>
  Against C7 as stated: an item with no properties at all, and an item that carries only
  a \<^verbatim>\<open>homepage\<close>, are not duplicates of themselves.
\<close>

theorem isDuplicate_not_reflexive:
  "\<not> isDuplicate
        \<lparr>title = None, url = None, description = None, homepage = None, repo = None,
         name = None\<rparr>
        \<lparr>title = None, url = None, description = None, homepage = None, repo = None,
         name = None\<rparr> \<and>
   \<not> isDuplicate (homepageItem ''https://github.com/hideoo/starlight-blog'')
        (homepageItem ''https://github.com/hideoo/starlight-blog'')"
  by (simp add: isDuplicate_def Let_def homepageItem_def orElse_def truthy_def orEmpty_def
        normalizeUrl_Nil getRepo_def)

text \<open>
  Claim C8, as the code has it. \<^verbatim>\<open>isDuplicate\<close> is symmetric on every pair of items that
  both carry a non-empty \<^verbatim>\<open>url\<close>, or both carry none. The fallback to \<^verbatim>\<open>homepage\<close> is
  applied to the first argument only.
\<close>

theorem isDuplicate_symmetric_on_urls:
  assumes "truthy (url a) \<longleftrightarrow> truthy (url b)"
  shows "isDuplicate a b = isDuplicate b a"
proof (cases "truthy (url a)")
  case True
  with assms have "truthy (url b)" by simp
  with True show ?thesis
    by (auto simp: isDuplicate_def Let_def orElse_truthy)
next
  case False
  with assms have "\<not> truthy (url b)" by simp
  with False show ?thesis
    by (simp add: isDuplicate_def Let_def normalizeUrl_falsy getRepo_falsy truthy_def)
qed

theorem isDuplicate_symmetric_on_urls_witness:
  "(truthy (url (urlItem ''https://Starlight.astro.build/'')) \<longleftrightarrow>
      truthy (url (urlItem ''https://starlight.astro.build''))) \<and>
   isDuplicate (urlItem ''https://Starlight.astro.build/'')
     (urlItem ''https://starlight.astro.build'') =
   isDuplicate (urlItem ''https://starlight.astro.build'')
     (urlItem ''https://Starlight.astro.build/'')"
proof -
  have h: "truthy (url (urlItem ''https://Starlight.astro.build/'')) \<longleftrightarrow>
           truthy (url (urlItem ''https://starlight.astro.build''))"
    by (simp add: urlItem_def truthy_def)
  from isDuplicate_symmetric_on_urls [OF h] h show ?thesis by simp
qed

text \<open>
  Against C8 as stated: an item that carries only a \<^verbatim>\<open>homepage\<close> is a duplicate of the
  item with that \<^verbatim>\<open>url\<close>, and not the other way round.
\<close>

theorem isDuplicate_not_symmetric:
  "isDuplicate (homepageItem ''https://starlight.astro.build'')
     (urlItem ''https://starlight.astro.build'') \<and>
   \<not> isDuplicate (urlItem ''https://starlight.astro.build'')
       (homepageItem ''https://starlight.astro.build'')"
  by (simp add: isDuplicate_def Let_def homepageItem_def urlItem_def orElse_def truthy_def
        orEmpty_def normalizeUrl_def stripTrailingSlash_def endsWith_def toLowerCase_def
        lowerChar_def getRepo_def)

section \<open>Theme keys\<close>

lemma normalizeThemeKey_title:
  "normalizeThemeKey (Some ''Starlight Theme Galaxy'') = ''galaxy''"
  by (simp add: normalizeThemeKey_def orEmpty_def toLowerCase_def lowerChar_def protocolAt_def
        literalAt_def docsAt_def isSeparator_def isSpace_def isLowerAlnum_def trim_def)

lemma normalizeThemeKey_slug:
  "normalizeThemeKey (Some ''starlight-galaxy-theme'') = ''galaxy''"
  by (simp add: normalizeThemeKey_def orEmpty_def toLowerCase_def lowerChar_def protocolAt_def
        literalAt_def docsAt_def isSeparator_def isSpace_def isLowerAlnum_def trim_def)

lemma matchGitHubAt_owner:
  assumes "owner \<noteq> []" and "CHR ''/'' \<notin> set owner"
    and "rp \<noteq> []" and "\<forall>c\<in>set rp. c \<noteq> CHR ''/'' \<and> c \<noteq> CHR ''#'' \<and> c \<noteq> CHR ''?''"
  shows "matchGitHubAt (''github.com/'' @ owner @ ''/'' @ rp) = Some (owner, rp)"
proof -
  have t: "takeWhile (\<lambda>c. c \<noteq> CHR ''/'') (owner @ CHR ''/'' # rp) = owner"
    using assms(2) by (induction owner) auto
  have d: "dropWhile (\<lambda>c. c \<noteq> CHR ''/'') (owner @ CHR ''/'' # rp) = CHR ''/'' # rp"
    using assms(2) by (induction owner) auto
  have r: "takeWhile (\<lambda>c. c \<noteq> CHR ''/'' \<and> c \<noteq> CHR ''#'' \<and> c \<noteq> CHR ''?'') rp = rp"
    using assms(4) by (simp add: takeWhile_eq_all_conv)
  show ?thesis using assms(1,3) by (simp add: matchGitHubAt_def t d r)
qed

lemma matchGitHub_https:
  assumes "matchGitHubAt (''github.com/'' @ rest) = Some m"
  shows "matchGitHub (''https://github.com/'' @ rest) = Some m"
  using assms by (simp add: matchGitHubAt_def)

lemma extractRepoSlug_galaxy:
  assumes "owner \<noteq> []" and "CHR ''/'' \<notin> set owner"
  shows "extractRepoSlug (Some (''https://github.com/'' @ owner @ ''/starlight-galaxy-theme''))
           = ''starlight-galaxy-theme''"
proof -
  have "matchGitHubAt (''github.com/'' @ owner @ ''/'' @ ''starlight-galaxy-theme'')
          = Some (owner, ''starlight-galaxy-theme'')"
    by (rule matchGitHubAt_owner [OF assms]) simp_all
  then have "matchGitHub (''https://github.com/'' @ owner @ ''/'' @ ''starlight-galaxy-theme'')
          = Some (owner, ''starlight-galaxy-theme'')"
    by (rule matchGitHub_https)
  then show ?thesis by (simp add: extractRepoSlug_def getRepo_def orEmpty_def)
qed

text \<open>
  Claim C9. An item titled \<^verbatim>\<open>"Starlight Theme Galaxy"\<close> and an item whose URL is
  \<^verbatim>\<open>https://github.com/<owner>/starlight-galaxy-theme\<close>, for any owner, are likely the
  same theme, in either order of the arguments and whatever their other properties are:
  the key of the title and the key of the repository slug are both \<^verbatim>\<open>"galaxy"\<close>.
\<close>

theorem isLikelySameTheme_galaxy:
  assumes "title a = Some ''Starlight Theme Galaxy''"
    and "owner \<noteq> []" and "CHR ''/'' \<notin> set owner"
    and "url b = Some (''https://github.com/'' @ owner @ ''/starlight-galaxy-theme'')"
  shows "isLikelySameTheme a b \<and> isLikelySameTheme b a \<and>
         normalizeThemeKey (title a) = ''galaxy'' \<and>
         normalizeThemeKey (Some (extractRepoSlug (url b))) = ''galaxy''"
proof -
  have ka: "normalizeThemeKey (title a) = ''galaxy''"
    using assms(1) by (simp add: normalizeThemeKey_title)
  have slug: "extractRepoSlug (url b) = ''starlight-galaxy-theme''"
    using assms(4) extractRepoSlug_galaxy [OF assms(2,3)] by simp
  have kb: "normalizeThemeKey (Some (extractRepoSlug (url b))) = ''galaxy''"
    using slug by (simp add: normalizeThemeKey_slug)
  have tb: "orElse (orElse (url b) (homepage b)) (repo b) = url b"
    using assms(4) by (simp add: orElse_def truthy_def)
  have ke: "keysEqual ''galaxy'' ''galaxy''" by (simp add: keysEqual_def)
  have "isLikelySameTheme a b"
    using ka kb tb ke by (simp add: isLikelySameTheme_def Let_def)
  moreover have "isLikelySameTheme b a"
    using ka kb tb ke by (simp add: isLikelySameTheme_def Let_def)
  ultimately show ?thesis using ka kb by simp
qed

theorem isLikelySameTheme_galaxy_witness:
  "isLikelySameTheme (titleItem ''Starlight Theme Galaxy'')
     (urlItem ''https://github.com/frostybee/starlight-galaxy-theme'') \<and>
   isLikelySameTheme (urlItem ''https://github.com/frostybee/starlight-galaxy-theme'')
     (titleItem ''Starlight Theme Galaxy'') \<and>
   normalizeThemeKey (title (titleItem ''Starlight Theme Galaxy'')) = ''galaxy'' \<and>
   normalizeThemeKey (Some (extractRepoSlug
     (url (urlItem ''https://github.com/frostybee/starlight-galaxy-theme'')))) = ''galaxy''"
proof -
  have t: "title (titleItem ''Starlight Theme Galaxy'') = Some ''Starlight Theme Galaxy''"
    by (simp add: titleItem_def)
  have o: "''frostybee'' \<noteq> []" "CHR ''/'' \<notin> set ''frostybee''" by simp_all
  have u: "url (urlItem ''https://github.com/frostybee/starlight-galaxy-theme'') =
           Some (''https://github.com/'' @ ''frostybee'' @ ''/starlight-galaxy-theme'')"
    by (simp add: urlItem_def)
  from isLikelySameTheme_galaxy [OF t o u] show ?thesis .
qed

section \<open>Properties of the validator\<close>

text \<open>
  Claim C10. For \<^verbatim>\<open>undefined\<close>, \<^verbatim>\<open>null\<close> and the empty string \<^verbatim>\<open>validateUrl\<close> returns
  \<^verbatim>\<open>false\<close> and leaves the state as it is: the memo gets no key and no request is made.
\<close>

theorem validateUrl_falsy:
  "validateUrl w st None = (False, st) \<and> validateUrl w st (Some []) = (False, st)"
  by (simp add: validateUrl_def truthy_def)

lemma checkGeneralUrl_memo: "processedUrls (snd (checkGeneralUrl w st u)) = processedUrls st"
  by (simp add: checkGeneralUrl_def Let_def split: option.splits)

lemma checkGitHubRepo_memo: "processedUrls (snd (checkGitHubRepo w st u)) = processedUrls st"
  by (simp add: checkGitHubRepo_def Let_def checkGeneralUrl_memo
        split: option.splits api_reply.splits api_body.splits prod.splits)

lemma validateUrl_memo:
  "truthy u \<Longrightarrow> trim (orEmpty u) \<in> processedUrls (snd (validateUrl w st u))"
  by (simp add: validateUrl_def Let_def checkGeneralUrl_memo checkGitHubRepo_memo)

text \<open>
  What a repeated call does: once a call for a non-empty URL has returned, whatever its
  result, every later call for that URL returns \<^verbatim>\<open>true\<close> and leaves the state, and so
  the log of requests, as it is.
\<close>

lemma validateUrl_repeat:
  assumes "truthy u" and "validateUrl w st u = (r, st1)"
  shows "validateUrl w st1 u = (True, st1)"
proof -
  from validateUrl_memo [OF assms(1), of w st] assms(2)
  have "trim (orEmpty u) \<in> processedUrls st1" by simp
  with assms(1) show ?thesis by (simp add: validateUrl_def Let_def)
qed

text \<open>
  Claim C1, at the input where the code departs from it. The repository
  \<^verbatim>\<open>https://github.com/x/dead\<close> does not exist (the API answers 404). The first call
  of \<^verbatim>\<open>validateUrl\<close> makes one request and returns \<^verbatim>\<open>false\<close>; the second call makes no
  request, and returns \<^verbatim>\<open>true\<close>.
\<close>

theorem validateUrl_repeat_of_dead_link:
  "validateUrl (apiWorld (ApiReply 404 BadJson)) initialState
     (Some ''https://github.com/x/dead'') =
     (False, \<lparr>processedUrls = {''https://github.com/x/dead''},
              calls = [ApiCall ''x'' ''dead'']\<rparr>) \<and>
   validateUrl (apiWorld (ApiReply 404 BadJson))
     \<lparr>processedUrls = {''https://github.com/x/dead''}, calls = [ApiCall ''x'' ''dead'']\<rparr>
     (Some ''https://github.com/x/dead'') =
     (True, \<lparr>processedUrls = {''https://github.com/x/dead''},
             calls = [ApiCall ''x'' ''dead'']\<rparr>)"
  by (simp add: validateUrl_def apiWorld_def initialState_def truthy_def orEmpty_def trim_def
        isSpace_def checkGitHubRepo_def matchGitHubAt_def)

text \<open>
  Claim C5. For a URL the repository pattern matches, the result of \<^verbatim>\<open>checkGitHubRepo\<close>
  follows the API's answer: 200 and a fork, \<^verbatim>\<open>false\<close>; 200 and no fork, \<^verbatim>\<open>true\<close>; 404,
  \<^verbatim>\<open>false\<close>; 403, \<^verbatim>\<open>true\<close>; another status, \<^verbatim>\<open>false\<close>; a request that throws or a body
  that cannot be read, \<^verbatim>\<open>false\<close>.
\<close>

theorem checkGitHubRepo_policy:
  assumes "matchGitHub u = Some (owner, rp)"
  shows "(githubApi w (calls st) owner rp = ApiReply 200 (RepoData True) \<longrightarrow>
            \<not> fst (checkGitHubRepo w st u)) \<and>
         (githubApi w (calls st) owner rp = ApiReply 200 (RepoData False) \<longrightarrow>
            fst (checkGitHubRepo w st u)) \<and>
         (\<forall>body. githubApi w (calls st) owner rp = ApiReply 404 body \<longrightarrow>
            \<not> fst (checkGitHubRepo w st u)) \<and>
         (\<forall>body. githubApi w (calls st) owner rp = ApiReply 403 body \<longrightarrow>
            fst (checkGitHubRepo w st u)) \<and>
         (\<forall>status body. githubApi w (calls st) owner rp = ApiReply status body \<and>
            status \<noteq> 200 \<and> status \<noteq> 404 \<and> status \<noteq> 403 \<longrightarrow>
            \<not> fst (checkGitHubRepo w st u)) \<and>
         (githubApi w (calls st) owner rp = ApiError \<longrightarrow> \<not> fst (checkGitHubRepo w st u)) \<and>
         (githubApi w (calls st) owner rp = ApiReply 200 BadJson \<longrightarrow>
            \<not> fst (checkGitHubRepo w st u))"
  using assms by (simp add: checkGitHubRepo_def Let_def)

theorem checkGitHubRepo_policy_witness:
  "matchGitHub ''https://github.com/withastro/starlight'' =
     Some (''withastro'', ''starlight'') \<and>
   \<not> fst (checkGitHubRepo (apiWorld (ApiReply 200 (RepoData True))) initialState
            ''https://github.com/withastro/starlight'') \<and>
   fst (checkGitHubRepo (apiWorld (ApiReply 200 (RepoData False))) initialState
            ''https://github.com/withastro/starlight'') \<and>
   \<not> fst (checkGitHubRepo (apiWorld (ApiReply 404 BadJson)) initialState
            ''https://github.com/withastro/starlight'') \<and>
   fst (checkGitHubRepo (apiWorld (ApiReply 403 BadJson)) initialState
            ''https://github.com/withastro/starlight'') \<and>
   \<not> fst (checkGitHubRepo (apiWorld (ApiReply 500 BadJson)) initialState
            ''https://github.com/withastro/starlight'') \<and>
   \<not> fst (checkGitHubRepo (apiWorld ApiError) initialState
            ''https://github.com/withastro/starlight'') \<and>
   \<not> fst (checkGitHubRepo (apiWorld (ApiReply 200 BadJson)) initialState
            ''https://github.com/withastro/starlight'')"
proof -
  have m: "matchGitHub ''https://github.com/withastro/starlight'' =
             Some (''withastro'', ''starlight'')"
    by (simp add: matchGitHubAt_def)
  note p = checkGitHubRepo_policy [OF m, of _ initialState]
  show ?thesis
    using m p [of "apiWorld (ApiReply 200 (RepoData True))"]
      p [of "apiWorld (ApiReply 200 (RepoData False))"]
      p [of "apiWorld (ApiReply 404 BadJson)"]
      p [of "apiWorld (ApiReply 403 BadJson)"]
      p [of "apiWorld (ApiReply 500 BadJson)"]
      p [of "apiWorld ApiError"]
      p [of "apiWorld (ApiReply 200 BadJson)"]
    by (simp add: apiWorld_def)
qed

section \<open>Properties of the fallback categorisation\<close>

lemma startsWith_append: "startsWith s p \<Longrightarrow> startsWith (s @ t) p"
  by (induction s p rule: startsWith.induct) auto

lemma includesStr_append: "includesStr s p \<Longrightarrow> p \<noteq> [] \<Longrightarrow> includesStr (s @ t) p"
  by (induction s) (auto dest: startsWith_append [where t = t])

lemma startsWith_map: "startsWith s p \<Longrightarrow> startsWith (map f s) (map f p)"
  by (induction s p rule: startsWith.induct) auto

lemma includesStr_map: "includesStr s p \<Longrightarrow> includesStr (map f s) (map f p)"
  by (induction s) (auto dest: startsWith_map [where f = f])

text \<open>
  The second test of the first branch, \<^verbatim>\<open>pkg.name.includes("theme")\<close>, adds nothing: a
  name that contains \<^verbatim>\<open>theme\<close> puts it into the lower-cased text.
\<close>

lemma name_theme_in_text:
  assumes "includesStr (pkg_name p) ''theme''"
  shows "includesStr (fallbackText p) ''theme''"
proof -
  have "includesStr (pkg_name p @ '' '' @ pkg_description p) ''theme''"
    using assms by (rule includesStr_append) simp
  then have "includesStr (map lowerChar (pkg_name p @ '' '' @ pkg_description p))
               (map lowerChar ''theme'')"
    by (rule includesStr_map)
  then show ?thesis by (simp add: fallbackText_def toLowerCase_def lowerChar_def)
qed

lemma fallback_themes:
  "cat_themes (foldl fallbackStep c ps) =
     cat_themes c @ map toItem (filter (\<lambda>p. includesStr (fallbackText p) ''theme'') ps)"
  by (induction ps arbitrary: c) (auto simp: fallbackStep_def Let_def name_theme_in_text)

lemma fallback_tools:
  "cat_tools (foldl fallbackStep c ps) =
     cat_tools c @ map toItem (filter (\<lambda>p. \<not> includesStr (fallbackText p) ''theme'' \<and>
       (includesStr (fallbackText p) ''vscode'' \<or> includesStr (fallbackText p) ''cli'' \<or>
        includesStr (fallbackText p) ''generator'')) ps)"
  by (induction ps arbitrary: c) (auto simp: fallbackStep_def Let_def name_theme_in_text)

lemma fallback_plugins:
  "cat_plugins (foldl fallbackStep c ps) =
     cat_plugins c @ map toItem (filter (\<lambda>p. \<not> includesStr (fallbackText p) ''theme'' \<and>
       \<not> includesStr (fallbackText p) ''vscode'' \<and> \<not> includesStr (fallbackText p) ''cli'' \<and>
       \<not> includesStr (fallbackText p) ''generator'') ps)"
  by (induction ps arbitrary: c) (auto simp: fallbackStep_def Let_def name_theme_in_text)

lemma toItem_text: "toItem p = toItem q \<Longrightarrow> fallbackText p = fallbackText q"
  by (simp add: toItem_def fallbackText_def)

lemma nova_text:
  "pkg_name p = ''starlight-theme-nova'' \<Longrightarrow> includesStr (fallbackText p) ''theme''"
  by (rule name_theme_in_text) simp

text \<open>
  Claim C3, as the code has it. For every package of the list, with \<open>fallbackText\<close> its
  lower-cased name, a space and its description: a package named
  \<^verbatim>\<open>starlight-theme-nova\<close> is pushed to the themes; a package whose text contains
  \<^verbatim>\<open>vscode\<close>, \<^verbatim>\<open>cli\<close> or \<^verbatim>\<open>generator\<close> and not \<^verbatim>\<open>theme\<close> is pushed to the tools; a
  package whose text contains none of the four words is pushed to the plugins; and in
  each case its entry is in neither of the other two lists.
\<close>

theorem fallbackCategorization_assigns:
  assumes "p \<in> set packages"
  shows "(pkg_name p = ''starlight-theme-nova'' \<longrightarrow>
            toItem p \<in> set (cat_themes (fallbackCategorization packages)) \<and>
            toItem p \<notin> set (cat_tools (fallbackCategorization packages)) \<and>
            toItem p \<notin> set (cat_plugins (fallbackCategorization packages))) \<and>
         (\<not> includesStr (fallbackText p) ''theme'' \<and>
          (includesStr (fallbackText p) ''vscode'' \<or> includesStr (fallbackText p) ''cli'' \<or>
           includesStr (fallbackText p) ''generator'') \<longrightarrow>
            toItem p \<in> set (cat_tools (fallbackCategorization packages)) \<and>
            toItem p \<notin> set (cat_themes (fallbackCategorization packages)) \<and>
            toItem p \<notin> set (cat_plugins (fallbackCategorization packages))) \<and>
         (\<not> includesStr (fallbackText p) ''theme'' \<and>
          \<not> includesStr (fallbackText p) ''vscode'' \<and>
          \<not> includesStr (fallbackText p) ''cli'' \<and>
          \<not> includesStr (fallbackText p) ''generator'' \<longrightarrow>
            toItem p \<in> set (cat_plugins (fallbackCategorization packages)) \<and>
            toItem p \<notin> set (cat_themes (fallbackCategorization packages)) \<and>
            toItem p \<notin> set (cat_tools (fallbackCategorization packages)))"
  using assms nova_text [of p]
  by (auto simp: fallbackCategorization_def emptyCategorized_def fallback_themes fallback_tools
        fallback_plugins dest: toItem_text)

lemma example_texts:
  "includesStr (fallbackText vscodePkg) ''vscode''"
  "\<not> includesStr (fallbackText vscodePkg) ''theme''"
  "\<not> includesStr (fallbackText blogPkg) ''theme''"
  "\<not> includesStr (fallbackText blogPkg) ''vscode''"
  "\<not> includesStr (fallbackText blogPkg) ''cli''"
  "\<not> includesStr (fallbackText blogPkg) ''generator''"
  by (simp_all add: fallbackText_def vscodePkg_def blogPkg_def toLowerCase_def lowerChar_def)

theorem fallbackCategorization_assigns_witness:
  "novaPkg \<in> set [novaPkg, vscodePkg, blogPkg] \<and>
   toItem novaPkg \<in> set (cat_themes (fallbackCategorization [novaPkg, vscodePkg, blogPkg])) \<and>
   toItem novaPkg \<notin> set (cat_tools (fallbackCategorization [novaPkg, vscodePkg, blogPkg])) \<and>
   toItem novaPkg \<notin> set (cat_plugins (fallbackCategorization [novaPkg, vscodePkg, blogPkg])) \<and>
   toItem vscodePkg \<in> set (cat_tools (fallbackCategorization [novaPkg, vscodePkg, blogPkg])) \<and>
   toItem vscodePkg \<notin> set (cat_themes (fallbackCategorization [novaPkg, vscodePkg, blogPkg])) \<and>
   toItem vscodePkg \<notin> set (cat_plugins (fallbackCategorization [novaPkg, vscodePkg, blogPkg])) \<and>
   toItem blogPkg \<in> set (cat_plugins (fallbackCategorization [novaPkg, vscodePkg, blogPkg])) \<and>
   toItem blogPkg \<notin> set (cat_themes (fallbackCategorization [novaPkg, vscodePkg, blogPkg])) \<and>
   toItem blogPkg \<notin> set (cat_tools (fallbackCategorization [novaPkg, vscodePkg, blogPkg]))"
proof -
  have n: "pkg_name novaPkg = ''starlight-theme-nova''" by (simp add: novaPkg_def)
  have m: "novaPkg \<in> set [novaPkg, vscodePkg, blogPkg]"
    "vscodePkg \<in> set [novaPkg, vscodePkg, blogPkg]"
    "blogPkg \<in> set [novaPkg, vscodePkg, blogPkg]" by simp_all
  show ?thesis
    using n example_texts fallbackCategorization_assigns [OF m(1)]
      fallbackCategorization_assigns [OF m(2)] fallbackCategorization_assigns [OF m(3)]
    by simp
qed

text \<open>
  Against C3 as stated: a package whose description is \<^verbatim>\<open>VS Code extension\<close> is pushed
  to the plugins, since the lower-cased text \<^verbatim>\<open>vs code extension\<close> does not contain
  \<^verbatim>\<open>vscode\<close>.
\<close>

theorem fallbackCategorization_vs_code:
  "includesStr (pkg_description vsCodePkg) ''VS Code extension'' \<and>
   fallbackCategorization [vsCodePkg] =
     \<lparr>cat_plugins = [toItem vsCodePkg], cat_themes = [], cat_tools = []\<rparr>"
  by (simp add: fallbackCategorization_def emptyCategorized_def fallbackStep_def Let_def
        fallbackText_def vsCodePkg_def toLowerCase_def lowerChar_def)

section \<open>Failures of the origins\<close>

lemma checkGeneralUrl_update [simp]:
  "checkGeneralUrl (w\<lparr>showcaseListing := x\<rparr>) st u = checkGeneralUrl w st u"
  by (simp add: checkGeneralUrl_def Let_def split: option.splits)

lemma checkGitHubRepo_update [simp]:
  "checkGitHubRepo (w\<lparr>showcaseListing := x\<rparr>) st u = checkGitHubRepo w st u"
  by (simp add: checkGitHubRepo_def Let_def
        split: option.splits api_reply.splits api_body.splits)

lemma validateUrl_update [simp]:
  "validateUrl (w\<lparr>showcaseListing := x\<rparr>) st u = validateUrl w st u"
  by (simp add: validateUrl_def Let_def)

lemma filterPackages_update [simp]:
  "filterPackages (w\<lparr>showcaseListing := x\<rparr>) st off ps = filterPackages w st off ps"
  by (induction ps arbitrary: st) (simp_all add: Let_def split: prod.splits)

lemma fetchOfficialSources_update [simp]:
  "fetchOfficialSources (w\<lparr>showcaseListing := x\<rparr>) = fetchOfficialSources w"
  by (simp add: fetchOfficialSources_def split: option.splits)

lemma fetchSupplementaryNPM_update [simp]:
  "fetchSupplementaryNPM (w\<lparr>showcaseListing := x\<rparr>) = fetchSupplementaryNPM w"
  by (simp add: fetchSupplementaryNPM_def split: option.splits)

lemma updateReadme_update [simp]:
  "updateReadme (w\<lparr>showcaseListing := x\<rparr>) d = updateReadme w d"
  by (simp add: updateReadme_def Let_def split: option.splits)

lemma fetchAstroShowcase_failed:
  assumes "showcaseListing w = ListingThrows \<or> showcaseListing w = ListingNotOk"
  shows "fetchAstroShowcase w st = ([], st)"
  using assms by (auto simp: fetchAstroShowcase_def)

lemma fetchAstroShowcase_empty:
  "fetchAstroShowcase (w\<lparr>showcaseListing := Listing []\<rparr>) st = ([], st)"
  by (simp add: fetchAstroShowcase_def)

lemma fetchOfficialSources_failed:
  assumes "officialPlugins w = None \<or> officialThemes w = None \<or>
           officialCommunity w = None \<or> officialShowcases w = None"
  shows "fetchOfficialSources w = Inl FetchFailed"
  using assms by (auto simp: fetchOfficialSources_def split: option.splits)

lemma fetchOfficialSources_answered:
  assumes "officialPlugins w \<noteq> None" and "officialThemes w \<noteq> None"
    and "officialCommunity w \<noteq> None" and "officialShowcases w \<noteq> None"
  shows "\<exists>d0. fetchOfficialSources w = Inr d0"
  using assms by (auto simp: fetchOfficialSources_def split: option.splits)

lemma fetchSupplementaryNPM_failed:
  assumes "npmSearch w ''starlight-'' = None \<or> npmSearch w ''@astrojs/starlight'' = None"
  shows "fetchSupplementaryNPM w = Inl NpmSearchError"
  using assms by (auto simp: fetchSupplementaryNPM_def split: option.splits)

text \<open>
  Claim C4, as the code has it. When the request for the showcase listing fails (it
  throws, or the response is not \<^verbatim>\<open>ok\<close>), \<^verbatim>\<open>fetchAstroShowcase\<close> returns no site,
  and \<^verbatim>\<open>collectAllData\<close> and \<^verbatim>\<open>run\<close> give what they give for an empty listing; if the
  other two origins answer, \<^verbatim>\<open>collectAllData\<close> returns a catalog, whose showcases are
  the official ones, and \<^verbatim>\<open>run\<close> goes on to \<^verbatim>\<open>updateReadme\<close>. When one of the four
  official pages cannot be fetched, \<^verbatim>\<open>collectAllData\<close> throws and \<^verbatim>\<open>run\<close> ends the
  process with status 1; so it does when the official pages answer and one of the two
  registry searches fails.
\<close>

theorem origin_failures:
  "(showcaseListing w = ListingThrows \<or> showcaseListing w = ListingNotOk \<longrightarrow>
      fetchAstroShowcase w st = ([], st) \<and>
      collectAllData w st = collectAllData (w\<lparr>showcaseListing := Listing []\<rparr>) st \<and>
      run w st = run (w\<lparr>showcaseListing := Listing []\<rparr>) st \<and>
      (\<forall>d0 ps. fetchOfficialSources w = Inr d0 \<and> fetchSupplementaryNPM w = Inr ps \<longrightarrow>
         (\<exists>d st1. collectAllData w st = Inr (d, st1) \<and>
            showcases d = sortItems (localeCompare w) (showcases d0) \<and>
            run w st = (case updateReadme w d of
                          Inl e \<Rightarrow> Exit 1
                        | Inr written \<Rightarrow> Complete written)))) \<and>
   (officialPlugins w = None \<or> officialThemes w = None \<or>
    officialCommunity w = None \<or> officialShowcases w = None \<longrightarrow>
      collectAllData w st = Inl FetchFailed \<and> run w st = Exit 1) \<and>
   (officialPlugins w \<noteq> None \<and> officialThemes w \<noteq> None \<and>
    officialCommunity w \<noteq> None \<and> officialShowcases w \<noteq> None \<and>
    (npmSearch w ''starlight-'' = None \<or> npmSearch w ''@astrojs/starlight'' = None) \<longrightarrow>
      collectAllData w st = Inl NpmSearchError \<and> run w st = Exit 1)"
proof (intro conjI impI allI)
  assume f: "showcaseListing w = ListingThrows \<or> showcaseListing w = ListingNotOk"
  show a: "fetchAstroShowcase w st = ([], st)"
    by (rule fetchAstroShowcase_failed [OF f])
  show c: "collectAllData w st = collectAllData (w\<lparr>showcaseListing := Listing []\<rparr>) st"
    by (simp add: collectAllData_def a fetchAstroShowcase_empty
          filterSupplementaryPackages_def Let_def split: sum.splits prod.splits)
  show "run w st = run (w\<lparr>showcaseListing := Listing []\<rparr>) st"
    by (simp add: run_def c split: sum.splits prod.splits)
  fix d0 ps
  assume "fetchOfficialSources w = Inr d0 \<and> fetchSupplementaryNPM w = Inr ps"
  then have "\<exists>d st1. collectAllData w st = Inr (d, st1) \<and>
               showcases d = sortItems (localeCompare w) (showcases d0)"
    by (simp add: collectAllData_def a Let_def split: prod.splits)
  then obtain d st1 where r: "collectAllData w st = Inr (d, st1)"
    and s: "showcases d = sortItems (localeCompare w) (showcases d0)"
    by blast
  have "run w st = (case updateReadme w d of
                      Inl e \<Rightarrow> Exit 1
                    | Inr written \<Rightarrow> Complete written)"
    by (simp add: run_def r)
  with r s show "\<exists>d st1. collectAllData w st = Inr (d, st1) \<and>
            showcases d = sortItems (localeCompare w) (showcases d0) \<and>
            run w st = (case updateReadme w d of
                          Inl e \<Rightarrow> Exit 1
                        | Inr written \<Rightarrow> Complete written)"
    by blast
next
  assume "officialPlugins w = None \<or> officialThemes w = None \<or>
          officialCommunity w = None \<or> officialShowcases w = None"
  then have "fetchOfficialSources w = Inl FetchFailed"
    by (rule fetchOfficialSources_failed)
  then show c: "collectAllData w st = Inl FetchFailed" by (simp add: collectAllData_def)
  then show "run w st = Exit 1" by (simp add: run_def)
next
  assume h: "officialPlugins w \<noteq> None \<and> officialThemes w \<noteq> None \<and>
    officialCommunity w \<noteq> None \<and> officialShowcases w \<noteq> None \<and>
    (npmSearch w ''starlight-'' = None \<or> npmSearch w ''@astrojs/starlight'' = None)"
  then obtain d0 where "fetchOfficialSources w = Inr d0"
    using fetchOfficialSources_answered [of w] by blast
  moreover from h
  have "npmSearch w ''starlight-'' = None \<or> npmSearch w ''@astrojs/starlight'' = None"
    by simp
  then have "fetchSupplementaryNPM w = Inl NpmSearchError"
    by (rule fetchSupplementaryNPM_failed)
  ultimately show c: "collectAllData w st = Inl NpmSearchError"
    by (simp add: collectAllData_def Let_def split: prod.splits)
  then show "run w st = Exit 1" by (simp add: run_def)
qed

theorem origin_failures_witness:
  "showcaseListing showcaseDownWorld = ListingNotOk \<and>
   fetchAstroShowcase showcaseDownWorld initialState = ([], initialState) \<and>
   collectAllData showcaseDownWorld initialState =
     Inr (\<lparr>plugins = [], themes = [], tools = [], videos = [], articles = [],
            showcases = [entry ''Astro'' ''https://docs.astro.build'']\<rparr>, initialState) \<and>
   run showcaseDownWorld initialState =
     Complete (Some (''# Awesome Starlight'' @ newline @
       ''<!-- AUTOMATED_CONTENT_START -->'' @ newline @ newline @
       ''## Showcases'' @ newline @ newline @
       ''Real-world documentation sites built with Starlight:'' @ newline @ newline @
       ''- [Astro](https://docs.astro.build)'' @ newline @ newline @
       ''<!-- AUTOMATED_CONTENT_END -->'')) \<and>
   officialPlugins officialDownWorld = None \<and>
   collectAllData officialDownWorld initialState = Inl FetchFailed \<and>
   run officialDownWorld initialState = Exit 1 \<and>
   npmSearch npmDownWorld ''starlight-'' = None \<and>
   collectAllData npmDownWorld initialState = Inl NpmSearchError \<and>
   run npmDownWorld initialState = Exit 1"
proof -
  have h1: "showcaseListing showcaseDownWorld = ListingNotOk"
    by (simp add: showcaseDownWorld_def quietWorld_def)
  have e1: "collectAllData (showcaseDownWorld\<lparr>showcaseListing := Listing []\<rparr>) initialState =
     Inr (\<lparr>plugins = [], themes = [], tools = [], videos = [], articles = [],
            showcases = [entry ''Astro'' ''https://docs.astro.build'']\<rparr>, initialState)"
    by code_simp
  have e2: "run (showcaseDownWorld\<lparr>showcaseListing := Listing []\<rparr>) initialState =
     Complete (Some (''# Awesome Starlight'' @ newline @
       ''<!-- AUTOMATED_CONTENT_START -->'' @ newline @ newline @
       ''## Showcases'' @ newline @ newline @
       ''Real-world documentation sites built with Starlight:'' @ newline @ newline @
       ''- [Astro](https://docs.astro.build)'' @ newline @ newline @
       ''<!-- AUTOMATED_CONTENT_END -->''))"
    by code_simp
  have h2: "officialPlugins officialDownWorld = None"
    by (simp add: officialDownWorld_def quietWorld_def)
  have h3: "officialPlugins npmDownWorld \<noteq> None \<and> officialThemes npmDownWorld \<noteq> None \<and>
            officialCommunity npmDownWorld \<noteq> None \<and> officialShowcases npmDownWorld \<noteq> None"
    by (simp add: npmDownWorld_def quietWorld_def)
  have h4: "npmSearch npmDownWorld ''starlight-'' = None"
    by (simp add: npmDownWorld_def quietWorld_def)
  from origin_failures [of showcaseDownWorld initialState] h1 e1 e2
  have "fetchAstroShowcase showcaseDownWorld initialState = ([], initialState) \<and>
        collectAllData showcaseDownWorld initialState =
          Inr (\<lparr>plugins = [], themes = [], tools = [], videos = [], articles = [],
                 showcases = [entry ''Astro'' ''https://docs.astro.build'']\<rparr>, initialState) \<and>
        run showcaseDownWorld initialState =
          Complete (Some (''# Awesome Starlight'' @ newline @
            ''<!-- AUTOMATED_CONTENT_START -->'' @ newline @ newline @
            ''## Showcases'' @ newline @ newline @
            ''Real-world documentation sites built with Starlight:'' @ newline @ newline @
            ''- [Astro](https://docs.astro.build)'' @ newline @ newline @
            ''<!-- AUTOMATED_CONTENT_END -->''))"
    by simp
  moreover from origin_failures [of officialDownWorld initialState] h2
  have "collectAllData officialDownWorld initialState = Inl FetchFailed \<and>
        run officialDownWorld initialState = Exit 1"
    by blast
  moreover from origin_failures [of npmDownWorld initialState] h3 h4
  have "collectAllData npmDownWorld initialState = Inl NpmSearchError \<and>
        run npmDownWorld initialState = Exit 1"
    by blast
  ultimately show ?thesis using h1 h2 h4 by simp
qed

text \<open>
  Against C4 as stated: when an official page cannot be fetched, and when the registry
  search fails, \<^verbatim>\<open>collectAllData\<close> ends with the exception and returns no catalog, and
  the run ends with status 1.
\<close>

theorem official_or_npm_failure_aborts:
  "officialPlugins officialDownWorld = None \<and>
   collectAllData officialDownWorld initialState = Inl FetchFailed \<and>
   run officialDownWorld initialState = Exit 1 \<and>
   npmSearch npmDownWorld ''starlight-'' = None \<and>
   collectAllData npmDownWorld initialState = Inl NpmSearchError \<and>
   run npmDownWorld initialState = Exit 1"
  by code_simp

section \<open>Duplicates in the catalog\<close>

lemma isDuplicate_symmetric_urls:
  assumes "truthy (url a)" and "truthy (url b)"
  shows "isDuplicate a b = isDuplicate b a"
  using assms by (auto simp: isDuplicate_def Let_def orElse_truthy)

text \<open>
  The fallback to \<^verbatim>\<open>homepage\<close> is all that tells the two arguments of \<^verbatim>\<open>isDuplicate\<close>
  apart: on items without a \<^verbatim>\<open>homepage\<close> the order of the arguments does not matter.
\<close>

lemma isDuplicate_symmetric_no_homepage:
  assumes "homepage a = None" and "homepage b = None"
  shows "isDuplicate a b = isDuplicate b a"
proof -
  have "orEmpty (orElse (url c) None) = orEmpty (url c)"
    and "getRepo (orElse (url c) None) = getRepo (url c)" for c :: item
    by (auto simp: orElse_def orEmpty_def truthy_def getRepo_def matchGitHubAt_def
          split: option.splits)
  with assms show ?thesis by (auto simp: isDuplicate_def Let_def)
qed

lemma isSameTitle_symmetric: "isSameTitle a b = isSameTitle b a"
  by (auto simp: isSameTitle_def)

lemma isLikelySameTheme_symmetric: "isLikelySameTheme a b = isLikelySameTheme b a"
  by (auto simp: isLikelySameTheme_def Let_def keysEqual_def)

text \<open>No entry of the official catalog, and no showcase site, has a \<^verbatim>\<open>homepage\<close>.\<close>

lemma official_no_homepage:
  "fetchOfficialSources w = Inr d0 \<Longrightarrow> y \<in> set (allOfficialItems d0) \<Longrightarrow> homepage y = None"
  by (auto simp: fetchOfficialSources_def allOfficialItems_def linkItem_def
        split: option.splits)

lemma showcaseSites_no_homepage:
  "showcaseSites w st fs = (sites, st') \<Longrightarrow> x \<in> set sites \<Longrightarrow> homepage x = None"
proof (induction fs arbitrary: st sites st')
  case Nil
  then show ?case by simp
next
  case (Cons f fs)
  show ?case
  proof (cases "file_doc f")
    case None
    with Cons show ?thesis by simp
  next
    case (Some d)
    show ?thesis
    proof (cases "''starlight'' \<in> set (doc_categories d)")
      case False
      with Some Cons show ?thesis by simp
    next
      case True
      obtain ok st1 where v: "validateUrl w st (doc_url d) = (ok, st1)" by force
      obtain rest st2 where r: "showcaseSites w st1 fs = (rest, st2)" by force
      from Cons.prems(1) Some True v r
      have s: "sites = (if ok then \<lparr>title = doc_title d, url = doc_url d,
                 description = Some [], homepage = None, repo = None, name = None\<rparr> # rest
               else rest)"
        by (simp add: Let_def)
      show ?thesis
      proof (cases "x \<in> set rest")
        case True
        with Cons.IH [OF r] show ?thesis .
      next
        case False
        with s Cons.prems(2) show ?thesis by (auto split: if_splits)
      qed
    qed
  qed
qed

lemma fetchAstroShowcase_no_homepage:
  "fetchAstroShowcase w st = (sites, st') \<Longrightarrow> x \<in> set sites \<Longrightarrow> homepage x = None"
  by (auto simp: fetchAstroShowcase_def split: listing.splits dest: showcaseSites_no_homepage)

lemma toItem_no_homepage: "homepage (toItem p) = None"
  by (simp add: toItem_def)

lemma mergeShowcases_subset: "set (mergeShowcases ex sites) \<subseteq> set ex \<union> set sites"
proof (induction sites arbitrary: ex)
  case Nil
  then show ?case by simp
next
  case (Cons s ss)
  show ?case
  proof (cases "list_ex (isDuplicate s) ex")
    case True
    with Cons.IH [of ex] show ?thesis by auto
  next
    case False
    with Cons.IH [of "ex @ [s]"] show ?thesis by auto
  qed
qed

text \<open>
  \<^verbatim>\<open>filterSupplementaryPackages\<close> tests the object \<^verbatim>\<open>{ name, url }\<close>, the categorisation
  pushes \<^verbatim>\<open>{ title, url, description }\<close>; \<^verbatim>\<open>isDuplicate\<close> reads \<^verbatim>\<open>url\<close> and
  \<^verbatim>\<open>homepage\<close> only.
\<close>

lemma isDuplicate_pkgItem:
  "isDuplicate \<lparr>title = None, url = pkg_homepage p, description = None, homepage = None,
                repo = None, name = Some (pkg_name p)\<rparr> = isDuplicate (toItem p)"
  by (rule ext) (simp add: isDuplicate_def toItem_def)

lemma filterPackages_sound:
  "filterPackages w st off ps = (res, st') \<Longrightarrow> p \<in> set res \<Longrightarrow>
     \<not> list_ex (isDuplicate (toItem p)) off"
proof (induction ps arbitrary: st res st')
  case Nil
  then show ?case by simp
next
  case (Cons q qs)
  then show ?case
    by (auto simp: Let_def isDuplicate_pkgItem split: if_splits prod.splits)
qed

lemma aiStep_plugins:
  "set (cat_plugins (foldl (aiStep f) c ips)) \<subseteq> set (cat_plugins c) \<union> toItem ` snd ` set ips"
proof (induction ips arbitrary: c)
  case Nil
  then show ?case by simp
next
  case (Cons ip ips)
  have "set (cat_plugins (aiStep f c ip)) \<subseteq> set (cat_plugins c) \<union> {toItem (snd ip)}"
    by (auto simp: aiStep_def Let_def)
  with Cons.IH [of "aiStep f c ip"] show ?case by auto
qed

lemma aiStep_themes:
  "set (cat_themes (foldl (aiStep f) c ips)) \<subseteq> set (cat_themes c) \<union> toItem ` snd ` set ips"
proof (induction ips arbitrary: c)
  case Nil
  then show ?case by simp
next
  case (Cons ip ips)
  have "set (cat_themes (aiStep f c ip)) \<subseteq> set (cat_themes c) \<union> {toItem (snd ip)}"
    by (auto simp: aiStep_def Let_def)
  with Cons.IH [of "aiStep f c ip"] show ?case by auto
qed

lemma snd_zip_upt: "snd ` set (zip [0 ..< length ps] ps) \<subseteq> set ps"
  by (auto dest: set_zip_rightD)

lemma categorize_plugins:
  "set (cat_plugins (categorizeSupplementary ai ps)) \<subseteq> toItem ` set ps"
proof (cases "ps = []")
  case True
  then show ?thesis by (simp add: categorizeSupplementary_def emptyCategorized_def)
next
  case False
  show ?thesis
  proof (cases "ai ps")
    case (AiObject f)
    have "set (cat_plugins (foldl (aiStep f) emptyCategorized (zip [0 ..< length ps] ps)))
            \<subseteq> toItem ` snd ` set (zip [0 ..< length ps] ps)"
      using aiStep_plugins [of f emptyCategorized] by (simp add: emptyCategorized_def)
    also have "\<dots> \<subseteq> toItem ` set ps" using snd_zip_upt [of ps] by blast
    finally show ?thesis using False AiObject by (simp add: categorizeSupplementary_def)
  qed (use False in \<open>auto simp: categorizeSupplementary_def fallbackCategorization_def
        emptyCategorized_def fallback_plugins\<close>)
qed

lemma categorize_themes:
  "set (cat_themes (categorizeSupplementary ai ps)) \<subseteq> toItem ` set ps"
proof (cases "ps = []")
  case True
  then show ?thesis by (simp add: categorizeSupplementary_def emptyCategorized_def)
next
  case False
  show ?thesis
  proof (cases "ai ps")
    case (AiObject f)
    have "set (cat_themes (foldl (aiStep f) emptyCategorized (zip [0 ..< length ps] ps)))
            \<subseteq> toItem ` snd ` set (zip [0 ..< length ps] ps)"
      using aiStep_themes [of f emptyCategorized] by (simp add: emptyCategorized_def)
    also have "\<dots> \<subseteq> toItem ` set ps" using snd_zip_upt [of ps] by blast
    finally show ?thesis using False AiObject by (simp add: categorizeSupplementary_def)
  qed (use False in \<open>auto simp: categorizeSupplementary_def fallbackCategorization_def
        emptyCategorized_def fallback_themes\<close>)
qed

lemma set_insertItem: "set (insertItem cmp x ys) = insert x (set ys)"
  by (induction ys) auto

lemma set_sortItems: "set (sortItems cmp xs) = set xs"
  by (induction xs) (auto simp: sortItems_def set_insertItem)

lemma newThemes_sound:
  "x \<in> set (newThemes ex cands) \<Longrightarrow> y \<in> set ex \<Longrightarrow>
     x \<in> set cands \<and> \<not> isDuplicate x y \<and> \<not> isSameTitle x y \<and> \<not> isLikelySameTheme x y"
  by (auto simp: newThemes_def list_ex_iff)

lemma validateUrl_True: "validateUrl w st u = (True, st') \<Longrightarrow> truthy u"
  by (auto simp: validateUrl_def split: if_splits)

lemma showcaseSites_truthy:
  "showcaseSites w st fs = (sites, st') \<Longrightarrow> x \<in> set sites \<Longrightarrow> truthy (url x)"
proof (induction fs arbitrary: st sites st')
  case Nil
  then show ?case by simp
next
  case (Cons f fs)
  show ?case
  proof (cases "file_doc f")
    case None
    with Cons show ?thesis by simp
  next
    case (Some d)
    show ?thesis
    proof (cases "''starlight'' \<in> set (doc_categories d)")
      case False
      with Some Cons show ?thesis by simp
    next
      case True
      obtain ok st1 where v: "validateUrl w st (doc_url d) = (ok, st1)" by force
      obtain rest st2 where r: "showcaseSites w st1 fs = (rest, st2)" by force
      from Cons.prems(1) Some True v r
      have s: "sites = (if ok then \<lparr>title = doc_title d, url = doc_url d,
                 description = Some [], homepage = None, repo = None, name = None\<rparr> # rest
               else rest)"
        by (simp add: Let_def)
      show ?thesis
      proof (cases "x \<in> set rest")
        case True
        with Cons.IH [OF r] show ?thesis .
      next
        case False
        with s Cons.prems(2) have "ok" and "url x = doc_url d"
          by (auto split: if_splits)
        with v validateUrl_True [of w st "doc_url d" st1] show ?thesis by simp
      qed
    qed
  qed
qed

lemma fetchAstroShowcase_truthy:
  "fetchAstroShowcase w st = (sites, st') \<Longrightarrow> x \<in> set sites \<Longrightarrow> truthy (url x)"
  by (auto simp: fetchAstroShowcase_def split: listing.splits dest: showcaseSites_truthy)

text \<open>
  The loop over the showcase sites appends; each site it appends is no duplicate of any
  entry that stands before it.
\<close>

lemma mergeShowcases_added:
  "\<exists>added. mergeShowcases ex sites = ex @ added \<and> set added \<subseteq> set sites \<and>
     (\<forall>i < length added. \<forall>y \<in> set (ex @ take i added). \<not> isDuplicate (added ! i) y)"
proof (induction sites arbitrary: ex)
  case Nil
  then show ?case by simp
next
  case (Cons s ss)
  show ?case
  proof (cases "list_ex (isDuplicate s) ex")
    case True
    from Cons.IH [of ex] obtain added where
      "mergeShowcases ex ss = ex @ added" "set added \<subseteq> set ss"
      "\<forall>i < length added. \<forall>y \<in> set (ex @ take i added). \<not> isDuplicate (added ! i) y"
      by blast
    with True show ?thesis by (intro exI [of _ added]) auto
  next
    case False
    from Cons.IH [of "ex @ [s]"] obtain added where a:
      "mergeShowcases (ex @ [s]) ss = (ex @ [s]) @ added" "set added \<subseteq> set ss"
      "\<forall>i < length added. \<forall>y \<in> set ((ex @ [s]) @ take i added). \<not> isDuplicate (added ! i) y"
      by blast
    have "\<forall>i < length (s # added). \<forall>y \<in> set (ex @ take i (s # added)).
            \<not> isDuplicate ((s # added) ! i) y"
    proof (intro allI impI ballI)
      fix i y
      assume i: "i < length (s # added)" and y: "y \<in> set (ex @ take i (s # added))"
      show "\<not> isDuplicate ((s # added) ! i) y"
      proof (cases i)
        case 0
        with y False show ?thesis by (auto simp: list_ex_iff)
      next
        case (Suc j)
        with i y a(3) show ?thesis by auto
      qed
    qed
    with a False show ?thesis by (intro exI [of _ "s # added"]) auto
  qed
qed

lemma mergeShowcases_sound:
  assumes "\<forall>s \<in> set sites. truthy (url s)"
    and "x \<in> set (mergeShowcases ex sites)" and "x \<notin> set ex"
    and "y \<in> set (mergeShowcases ex sites)" and "y \<noteq> x"
  shows "\<not> isDuplicate x y"
proof -
  from mergeShowcases_added [of ex sites] obtain added where a:
    "mergeShowcases ex sites = ex @ added" "set added \<subseteq> set sites"
    "\<forall>i < length added. \<forall>y \<in> set (ex @ take i added). \<not> isDuplicate (added ! i) y"
    by blast
  from assms(2,3) a(1) obtain i where i: "i < length added" "added ! i = x"
    by (auto simp: in_set_conv_nth)
  show ?thesis
  proof (cases "y \<in> set ex")
    case True
    with a(3) i show ?thesis by auto
  next
    case False
    with assms(4) a(1) obtain j where j: "j < length added" "added ! j = y"
      by (auto simp: in_set_conv_nth)
    with i assms(5) have ij: "i \<noteq> j" by auto
    show ?thesis
    proof (cases "j < i")
      case True
      then have "y \<in> set (take i added)"
        using j i by (auto simp: in_set_conv_nth intro!: exI [of _ j])
      with a(3) i show ?thesis by auto
    next
      case False
      with ij have "i < j" by simp
      then have "x \<in> set (take j added)"
        using j i by (auto simp: in_set_conv_nth intro!: exI [of _ i])
      with a(3) j have "\<not> isDuplicate y x" by auto
      moreover have "truthy (url x)" "truthy (url y)"
        using assms(1) a(2) i j by (auto simp: subset_iff dest: nth_mem)
      ultimately show ?thesis
        using isDuplicate_symmetric_urls [of x y] by simp
    qed
  qed
qed

text \<open>
  Claim C2, as the code has it. Let the official sources give the catalog \<open>d0\<close>, and
  let \<^verbatim>\<open>collectAllData\<close> complete with the catalog \<open>d\<close>. In each of the three parts,
  \<^verbatim>\<open>isDuplicate\<close> is false of the two entries in either order of its arguments.
  \<^item> An entry of the plugins of \<open>d\<close> that is not an official plugin and an official
    plugin are no duplicates.
  \<^item> An entry of the themes of \<open>d\<close> that is not an official theme and an official
    theme are no duplicates, have not the same title, and are not likely the same theme.
  \<^item> An entry of the showcases of \<open>d\<close> that is not an official showcase and any other
    showcase of \<open>d\<close> are no duplicates.

  Nothing is said of two official entries, nor of two entries that came from the
  registry.
\<close>

theorem collectAllData_no_duplicate_of_official:
  assumes "fetchOfficialSources w = Inr d0"
    and "collectAllData w st = Inr (d, st')"
  shows "(\<forall>x \<in> set (plugins d). x \<notin> set (plugins d0) \<longrightarrow>
            (\<forall>y \<in> set (plugins d0). \<not> isDuplicate x y \<and> \<not> isDuplicate y x)) \<and>
         (\<forall>x \<in> set (themes d). x \<notin> set (themes d0) \<longrightarrow>
            (\<forall>y \<in> set (themes d0).
               \<not> isDuplicate x y \<and> \<not> isDuplicate y x \<and>
               \<not> isSameTitle x y \<and> \<not> isSameTitle y x \<and>
               \<not> isLikelySameTheme x y \<and> \<not> isLikelySameTheme y x)) \<and>
         (\<forall>x \<in> set (showcases d). x \<notin> set (showcases d0) \<longrightarrow>
            (\<forall>y \<in> set (showcases d). y \<noteq> x \<longrightarrow> \<not> isDuplicate x y \<and> \<not> isDuplicate y x))"
proof -
  obtain sites st1 where fa: "fetchAstroShowcase w st = (sites, st1)" by force
  define d1 where "d1 = d0\<lparr>showcases := mergeShowcases (showcases d0) sites\<rparr>"
  from assms fa obtain npm where npm: "fetchSupplementaryNPM w = Inr npm"
    by (auto simp: collectAllData_def Let_def split: sum.splits)
  obtain filtered st2 where
    fi: "filterPackages w st1 (allOfficialItems d1) npm = (filtered, st2)"
    by force
  define cat where "cat = categorizeSupplementary (aiReply w) filtered"
  from assms fa npm fi have
    dp: "plugins d = sortItems (localeCompare w) (plugins d0 @ cat_plugins cat)" and
    dt: "themes d = sortItems (localeCompare w)
           (themes d0 @ newThemes (themes d0) (cat_themes cat))" and
    ds: "showcases d = sortItems (localeCompare w) (mergeShowcases (showcases d0) sites)"
    by (auto simp: collectAllData_def Let_def filterSupplementaryPackages_def d1_def cat_def)
  have nh: "homepage y = None" if "y \<in> set (allOfficialItems d0)" for y
    using official_no_homepage [OF assms(1) that] .
  have new: "\<not> isDuplicate (toItem p) y"
    if "p \<in> set filtered" and "y \<in> set (allOfficialItems d1)" for p y
    using filterPackages_sound [OF fi that(1)] that(2) by (auto simp: list_ex_iff)
  have off: "set (plugins d0) \<subseteq> set (allOfficialItems d1)"
    "set (plugins d0) \<subseteq> set (allOfficialItems d0)"
    "set (themes d0) \<subseteq> set (allOfficialItems d0)"
    "set (showcases d0) \<subseteq> set (allOfficialItems d0)"
    by (auto simp: allOfficialItems_def d1_def)
  have "\<not> isDuplicate x y \<and> \<not> isDuplicate y x"
    if "x \<in> set (plugins d)" "x \<notin> set (plugins d0)" "y \<in> set (plugins d0)" for x y
  proof -
    from that(1,2) dp have "x \<in> set (cat_plugins cat)" by (simp add: set_sortItems)
    with categorize_plugins [of "aiReply w" filtered]
    obtain p where p: "p \<in> set filtered" "x = toItem p" by (auto simp: cat_def)
    with new [of p y] that(3) off(1) have "\<not> isDuplicate x y" by auto
    moreover have "homepage x = None" using p by (simp add: toItem_no_homepage)
    moreover have "homepage y = None" using nh that(3) off(2) by auto
    ultimately show ?thesis using isDuplicate_symmetric_no_homepage [of x y] by simp
  qed
  moreover have "\<not> isDuplicate x y \<and> \<not> isDuplicate y x \<and>
                 \<not> isSameTitle x y \<and> \<not> isSameTitle y x \<and>
                 \<not> isLikelySameTheme x y \<and> \<not> isLikelySameTheme y x"
    if "x \<in> set (themes d)" "x \<notin> set (themes d0)" "y \<in> set (themes d0)" for x y
  proof -
    from that(1,2) dt have n: "x \<in> set (newThemes (themes d0) (cat_themes cat))"
      by (simp add: set_sortItems)
    from newThemes_sound [OF n that(3)] have
      s: "x \<in> set (cat_themes cat)" "\<not> isDuplicate x y" "\<not> isSameTitle x y"
         "\<not> isLikelySameTheme x y"
      by simp_all
    from s(1) categorize_themes [of "aiReply w" filtered]
    obtain p where "x = toItem p" by (auto simp: cat_def)
    then have "homepage x = None" by (simp add: toItem_no_homepage)
    moreover have "homepage y = None" using nh that(3) off(3) by auto
    ultimately have "\<not> isDuplicate y x"
      using s(2) isDuplicate_symmetric_no_homepage [of x y] by simp
    with s show ?thesis
      using isSameTitle_symmetric [of x y] isLikelySameTheme_symmetric [of x y] by simp
  qed
  moreover have "\<not> isDuplicate x y \<and> \<not> isDuplicate y x"
    if "x \<in> set (showcases d)" "x \<notin> set (showcases d0)" "y \<in> set (showcases d)" "y \<noteq> x"
    for x y
  proof -
    have t: "\<forall>s \<in> set sites. truthy (url s)"
      using fetchAstroShowcase_truthy [OF fa] by blast
    from that ds have xy: "\<not> isDuplicate x y"
      using mergeShowcases_sound [OF t, of x "showcases d0" y] by (simp add: set_sortItems)
    have h: "homepage z = None" if "z \<in> set (showcases d)" for z
    proof -
      from that ds mergeShowcases_subset [of "showcases d0" sites]
      have "z \<in> set (showcases d0) \<or> z \<in> set sites" by (auto simp: set_sortItems)
      then show ?thesis
        using nh [of z] off(4) fetchAstroShowcase_no_homepage [OF fa, of z] by auto
    qed
    from xy h [OF that(1)] h [OF that(3)] show ?thesis
      using isDuplicate_symmetric_no_homepage [of x y] by simp
  qed
  ultimately show ?thesis by blast
qed

lemma merge_official:
  "fetchOfficialSources mergeWorld =
     Inr \<lparr>plugins = [entry ''Blog'' ''https://github.com/hideoo/starlight-blog''],
          themes = [entry ''Rapide'' ''https://starlight-theme-rapide.vercel.app''],
          tools = [], videos = [], articles = [],
          showcases = [entry ''Astro'' ''https://docs.astro.build'']\<rparr>"
  by (simp add: fetchOfficialSources_def mergeWorld_def quietWorld_def linkItem_def
        linkEntry_def entry_def)

lemma merge_run:
  "collectAllData mergeWorld initialState =
     Inr (\<lparr>plugins = [entry ''Blog'' ''https://github.com/hideoo/starlight-blog'',
                       toItem (npmPkg ''starlight-zoom'' ''Astro Starlight plugin''
                                 ''https://github.com/x/zoom'')],
            themes = [entry ''Rapide'' ''https://starlight-theme-rapide.vercel.app'',
                      toItem (npmPkg ''starlight-theme-nova'' ''Astro Starlight theme''
                                ''https://github.com/x/nova'')],
            tools = [], videos = [], articles = [],
            showcases = [entry ''Astro'' ''https://docs.astro.build'',
                         entry ''Biome'' ''https://biomejs.dev'']\<rparr>,
          \<lparr>processedUrls = {''https://github.com/x/nova'', ''https://github.com/x/zoom'',
                            ''https://biomejs.dev''},
           calls = [ProbeCall HEAD ''https://biomejs.dev'', ApiCall ''x'' ''zoom'',
                    ApiCall ''x'' ''nova'']\<rparr>)"
  by code_simp

lemma example_items_differ:
  "toItem (npmPkg ''starlight-zoom'' ''Astro Starlight plugin'' ''https://github.com/x/zoom'')
     \<noteq> entry ''Blog'' ''https://github.com/hideoo/starlight-blog''"
  "toItem (npmPkg ''starlight-theme-nova'' ''Astro Starlight theme'' ''https://github.com/x/nova'')
     \<noteq> entry ''Rapide'' ''https://starlight-theme-rapide.vercel.app''"
  "entry ''Biome'' ''https://biomejs.dev'' \<noteq> entry ''Astro'' ''https://docs.astro.build''"
  by (simp_all add: toItem_def npmPkg_def entry_def)

theorem collectAllData_no_duplicate_of_official_witness:
  "fetchOfficialSources mergeWorld =
     Inr \<lparr>plugins = [entry ''Blog'' ''https://github.com/hideoo/starlight-blog''],
          themes = [entry ''Rapide'' ''https://starlight-theme-rapide.vercel.app''],
          tools = [], videos = [], articles = [],
          showcases = [entry ''Astro'' ''https://docs.astro.build'']\<rparr> \<and>
   collectAllData mergeWorld initialState =
     Inr (\<lparr>plugins = [entry ''Blog'' ''https://github.com/hideoo/starlight-blog'',
                       toItem (npmPkg ''starlight-zoom'' ''Astro Starlight plugin''
                                 ''https://github.com/x/zoom'')],
            themes = [entry ''Rapide'' ''https://starlight-theme-rapide.vercel.app'',
                      toItem (npmPkg ''starlight-theme-nova'' ''Astro Starlight theme''
                                ''https://github.com/x/nova'')],
            tools = [], videos = [], articles = [],
            showcases = [entry ''Astro'' ''https://docs.astro.build'',
                         entry ''Biome'' ''https://biomejs.dev'']\<rparr>,
          \<lparr>processedUrls = {''https://github.com/x/nova'', ''https://github.com/x/zoom'',
                            ''https://biomejs.dev''},
           calls = [ProbeCall HEAD ''https://biomejs.dev'', ApiCall ''x'' ''zoom'',
                    ApiCall ''x'' ''nova'']\<rparr>) \<and>
   \<not> isDuplicate
       (toItem (npmPkg ''starlight-zoom'' ''Astro Starlight plugin'' ''https://github.com/x/zoom''))
       (entry ''Blog'' ''https://github.com/hideoo/starlight-blog'') \<and>
   \<not> isDuplicate
       (toItem (npmPkg ''starlight-theme-nova'' ''Astro Starlight theme''
                  ''https://github.com/x/nova''))
       (entry ''Rapide'' ''https://starlight-theme-rapide.vercel.app'') \<and>
   \<not> isSameTitle
       (toItem (npmPkg ''starlight-theme-nova'' ''Astro Starlight theme''
                  ''https://github.com/x/nova''))
       (entry ''Rapide'' ''https://starlight-theme-rapide.vercel.app'') \<and>
   \<not> isLikelySameTheme
       (toItem (npmPkg ''starlight-theme-nova'' ''Astro Starlight theme''
                  ''https://github.com/x/nova''))
       (entry ''Rapide'' ''https://starlight-theme-rapide.vercel.app'') \<and>
   \<not> isDuplicate (entry ''Biome'' ''https://biomejs.dev'')
       (entry ''Astro'' ''https://docs.astro.build'') \<and>
   \<not> isDuplicate (entry ''Blog'' ''https://github.com/hideoo/starlight-blog'')
       (toItem (npmPkg ''starlight-zoom'' ''Astro Starlight plugin''
                  ''https://github.com/x/zoom'')) \<and>
   \<not> isDuplicate (entry ''Rapide'' ''https://starlight-theme-rapide.vercel.app'')
       (toItem (npmPkg ''starlight-theme-nova'' ''Astro Starlight theme''
                  ''https://github.com/x/nova'')) \<and>
   \<not> isDuplicate (entry ''Astro'' ''https://docs.astro.build'')
       (entry ''Biome'' ''https://biomejs.dev'')"
proof -
  note t = collectAllData_no_duplicate_of_official [OF merge_official merge_run]
  from t example_items_differ have
    "\<not> isDuplicate
       (toItem (npmPkg ''starlight-zoom'' ''Astro Starlight plugin'' ''https://github.com/x/zoom''))
       (entry ''Blog'' ''https://github.com/hideoo/starlight-blog'')"
    by simp
  moreover from t example_items_differ have
    "\<not> isDuplicate
       (toItem (npmPkg ''starlight-theme-nova'' ''Astro Starlight theme''
                  ''https://github.com/x/nova''))
       (entry ''Rapide'' ''https://starlight-theme-rapide.vercel.app'') \<and>
     \<not> isSameTitle
       (toItem (npmPkg ''starlight-theme-nova'' ''Astro Starlight theme''
                  ''https://github.com/x/nova''))
       (entry ''Rapide'' ''https://starlight-theme-rapide.vercel.app'') \<and>
     \<not> isLikelySameTheme
       (toItem (npmPkg ''starlight-theme-nova'' ''Astro Starlight theme''
                  ''https://github.com/x/nova''))
       (entry ''Rapide'' ''https://starlight-theme-rapide.vercel.app'')"
    by simp
  moreover from t example_items_differ have
    "\<not> isDuplicate (entry ''Biome'' ''https://biomejs.dev'')
       (entry ''Astro'' ''https://docs.astro.build'')"
    by simp
  moreover from t example_items_differ have
    "\<not> isDuplicate (entry ''Blog'' ''https://github.com/hideoo/starlight-blog'')
       (toItem (npmPkg ''starlight-zoom'' ''Astro Starlight plugin''
                  ''https://github.com/x/zoom''))"
    by simp
  moreover from t example_items_differ have
    "\<not> isDuplicate (entry ''Rapide'' ''https://starlight-theme-rapide.vercel.app'')
       (toItem (npmPkg ''starlight-theme-nova'' ''Astro Starlight theme''
                  ''https://github.com/x/nova''))"
    by simp
  moreover from t example_items_differ have
    "\<not> isDuplicate (entry ''Astro'' ''https://docs.astro.build'')
       (entry ''Biome'' ''https://biomejs.dev'')"
    by simp
  ultimately show ?thesis using merge_official merge_run by simp
qed

text \<open>
  Against C2 as stated: the two packages of the registry that share a home page are
  both merged into the plugins, and each is a duplicate of the other; so are the two
  official entries for one repository.
\<close>

theorem collectAllData_keeps_duplicates:
  "collectAllData dupWorld initialState =
     Inr (\<lparr>plugins =
             [entry ''Blog'' ''https://github.com/HiDeoo/starlight-blog'',
              entry ''Blog docs'' ''https://github.com/hideoo/starlight-blog/'',
              toItem (npmPkg ''starlight-kbd'' ''Astro Starlight plugin''
                        ''https://github.com/x/mono''),
              toItem (npmPkg ''starlight-zoom'' ''Astro Starlight plugin''
                        ''https://github.com/x/mono'')],
           themes = [], tools = [], videos = [], articles = [], showcases = []\<rparr>,
          \<lparr>processedUrls = {''https://github.com/x/mono''},
           calls = [ApiCall ''x'' ''mono'']\<rparr>) \<and>
   toItem (npmPkg ''starlight-kbd'' ''Astro Starlight plugin'' ''https://github.com/x/mono'') \<noteq>
   toItem (npmPkg ''starlight-zoom'' ''Astro Starlight plugin'' ''https://github.com/x/mono'') \<and>
   isDuplicate
     (toItem (npmPkg ''starlight-kbd'' ''Astro Starlight plugin'' ''https://github.com/x/mono''))
     (toItem (npmPkg ''starlight-zoom'' ''Astro Starlight plugin'' ''https://github.com/x/mono'')) \<and>
   entry ''Blog'' ''https://github.com/HiDeoo/starlight-blog'' \<noteq>
   entry ''Blog docs'' ''https://github.com/hideoo/starlight-blog/'' \<and>
   isDuplicate (entry ''Blog'' ''https://github.com/HiDeoo/starlight-blog'')
     (entry ''Blog docs'' ''https://github.com/hideoo/starlight-blog/'')"
  by code_simp

end
